theory Spec2Isabelle
  imports Main "HOL-Library.AList"
begin

section \<open>Data model\<close>

text \<open>
  The repository has two modules: the class \<open>Subscription\<close> (websocket.util.ts) and the
  React component \<open>WebSocketProvider\<close> (WebSocketProvider.tsx), whose refs and callbacks
  form one mutable provider object around a single STOMP client.

  Subscription objects are shared: the registry \<open>subscriptionsRef\<close> holds references, the
  caller holds the same object, and every timer closure captures \<open>this\<close>. They are
  therefore kept in a store indexed by address; the registry maps an id to an address.
  Everything the code does to the outside world (the transport primitives, timers, calls
  of caller-supplied functions) is appended to an effect log.
\<close>

type_synonym addr = nat
type_synonym handle = nat

text \<open>A function of type \<open>() => void\<close>: the module's \<open>noOp\<close> or a caller's function.\<close>

datatype callback = noOp | Callback nat

text \<open>What \<open>await this.pollingCallback()\<close> produces: a value (taken by its truthiness),
  or a rejection (the callback threw, or returned a promise that rejected).\<close>

datatype poll_result = Resolved bool | Rejected

datatype timer = PrimaryTimer addr | FallbackTimer addr

datatype effect =
    ClientConnect string
  | ClientDisconnect callback
  | ClientSend string string
  | ClientSubscribe string handle
  | HandleUnsubscribe handle
  | SetTimeout timer int
  | PollingCallbackCalled timer
  | UnhandledRejection timer
  | OnUnsubscribe string
  | Invoke callback
  | CallBeforeDisconnect "string option"
  | Resolve addr
  | PollingActivated

text \<open>\<open>ISubscribeOptions\<close>; every field is optional. A polling callback is represented by
  its identity, its results come from the environment when a tick runs.\<close>

record ISubscribeOptions =
  opt_pollingCallback :: "nat option"
  opt_pollingDelay :: "int option"
  opt_fallbackPollingDelay :: "int option"

text \<open>The fields of class \<open>Subscription\<close>. \<open>sub_client\<close> is \<open>this.client\<close>: either
  \<open>null\<close> (False) or the one shared client (True).\<close>

record subscription =
  sub_id :: string
  sub_client :: bool
  sub_topicId :: string
  sub_subscription :: "handle option"
  pollingCallback :: "nat option"
  pollingDelay :: int
  fallbackPollingDelay :: int
  onMessageCallback :: "nat option"

text \<open>The \<open>config\<close> prop of the provider.\<close>

record config =
  reconnectionDelay :: "int option"
  reconnectionTries :: "int option"
  sendMessageUrl :: "string option"

text \<open>The provider: its refs, the module-level \<open>promiseArr\<close>, the memoised
  \<open>onDisconnectHandler\<close>, the part of the STOMP client the code reads and writes
  (\<open>connected\<close>, \<open>active\<close>, \<open>reconnectDelay\<close>), the object store and the effect log.\<close>

record provider =
  subscriptionsRef :: "(string \<times> addr) list"
  disconnectCallback :: callback
  onDisconnectHandler :: callback
  beforeDisconnectCallback :: "(string option \<Rightarrow> string) option"
  isFirstConnection :: bool
  clientReconnectionTries :: int
  isClientConnectionBroken :: bool
  isPollingActive :: bool
  isClientDisconnectedForced :: bool
  promiseArr :: "addr list"
  client_connected :: bool
  client_active :: bool
  client_reconnectDelay :: int
  objects :: "addr \<Rightarrow> subscription"
  next_addr :: addr
  next_handle :: handle
  log :: "effect list"

section \<open>Constants and configuration\<close>

definition DEFAULT_POLLING_DELAY :: int where
  "DEFAULT_POLLING_DELAY = 3000"

definition DEFAULT_FIXED_POLLING_DELAY :: int where
  "DEFAULT_FIXED_POLLING_DELAY = 20000"

definition DEFAULT_RECONNECTION_DELAY :: int where
  "DEFAULT_RECONNECTION_DELAY = 5000"

definition DEFAULT_RECONNECTION_TRIES :: int where
  "DEFAULT_RECONNECTION_TRIES = 3"

text \<open>\<open>x || d\<close> on an optional number: \<open>undefined\<close> and \<open>0\<close> are falsy. (Numbers are
  modelled as integers; \<open>NaN\<close> and fractions are outside the model.)\<close>

definition or_default :: "int option \<Rightarrow> int \<Rightarrow> int" where
  "or_default x d = (case x of None \<Rightarrow> d | Some n \<Rightarrow> (if n = 0 then d else n))"

definition reconnectDelay :: "config option \<Rightarrow> int" where
  "reconnectDelay cfg =
     or_default (case cfg of None \<Rightarrow> None | Some c \<Rightarrow> reconnectionDelay c) DEFAULT_RECONNECTION_DELAY"

definition clientMaxReconnectionTries :: "config option \<Rightarrow> int" where
  "clientMaxReconnectionTries cfg =
     or_default (case cfg of None \<Rightarrow> None | Some c \<Rightarrow> reconnectionTries c) DEFAULT_RECONNECTION_TRIES"

text \<open>\<open>config?.sendMessageUrl\<close> as a condition: absent and the empty string are falsy.\<close>

definition send_target :: "config option \<Rightarrow> string option" where
  "send_target cfg =
     (case cfg of None \<Rightarrow> None
      | Some c \<Rightarrow> (case sendMessageUrl c of None \<Rightarrow> None
                   | Some u \<Rightarrow> (if u = [] then None else Some u)))"

definition emit :: "effect list \<Rightarrow> provider \<Rightarrow> provider" where
  "emit es s = s\<lparr>log := log s @ es\<rparr>"

section \<open>Class Subscription\<close>

text \<open>\<open>onUnsubscribe\<close> of the provider, the function every Subscription is built with.\<close>

definition onUnsubscribe :: "string \<Rightarrow> provider \<Rightarrow> provider" where
  "onUnsubscribe i s =
     (let s1 = emit [OnUnsubscribe i] s
      in if map_of (subscriptionsRef s1) i \<noteq> None
         then s1\<lparr>subscriptionsRef := AList.delete i (subscriptionsRef s1)\<rparr>
         else s1)"

definition Subscription_unsubscribe :: "addr \<Rightarrow> provider \<Rightarrow> provider" where
  "Subscription_unsubscribe a s =
     (let this = objects s a;
          s1 = (if sub_client this \<and> client_connected s
                then (case sub_subscription this of
                        Some h \<Rightarrow> emit [HandleUnsubscribe h] s
                      | None \<Rightarrow> s)
                else s)
      in onUnsubscribe (sub_id this) s1)"

definition startPolling :: "addr \<Rightarrow> provider \<Rightarrow> provider" where
  "startPolling a s =
     (let this = objects s a
      in if pollingCallback this \<noteq> None
         then emit [SetTimeout (PrimaryTimer a) (pollingDelay this)] s
         else s)"

definition fallbackPolling :: "addr \<Rightarrow> provider \<Rightarrow> provider" where
  "fallbackPolling a s =
     (let this = objects s a
      in if pollingCallback this \<noteq> None
         then emit [SetTimeout (FallbackTimer a) (fallbackPollingDelay this)] s
         else s)"

text \<open>The timer callbacks are async functions with one \<open>await\<close>. The part before the
  \<open>await\<close> tests the connection and calls the polling callback; the part after it runs
  when the callback has settled, on the state of that later moment.\<close>

definition startPolling_fires :: "addr \<Rightarrow> provider \<Rightarrow> bool" where
  "startPolling_fires a s = (\<not> (sub_client (objects s a) \<and> client_connected s))"

definition startPolling_timeout :: "addr \<Rightarrow> provider \<Rightarrow> provider" where
  "startPolling_timeout a s =
     (if startPolling_fires a s then emit [PollingCallbackCalled (PrimaryTimer a)] s else s)"

definition startPolling_settled :: "addr \<Rightarrow> poll_result \<Rightarrow> provider \<Rightarrow> provider" where
  "startPolling_settled a r s =
     (case r of
        Resolved isPollAgain \<Rightarrow>
          (if isPollAgain then startPolling a s else Subscription_unsubscribe a s)
      | Rejected \<Rightarrow> emit [UnhandledRejection (PrimaryTimer a)] s)"

definition fallbackPolling_fires :: "addr \<Rightarrow> provider \<Rightarrow> bool" where
  "fallbackPolling_fires a s =
     ((sub_client (objects s a) \<and> client_connected s) \<and> sub_subscription (objects s a) \<noteq> None)"

definition fallbackPolling_timeout :: "addr \<Rightarrow> provider \<Rightarrow> provider" where
  "fallbackPolling_timeout a s =
     (if fallbackPolling_fires a s then emit [PollingCallbackCalled (FallbackTimer a)] s else s)"

definition fallbackPolling_settled :: "addr \<Rightarrow> poll_result \<Rightarrow> provider \<Rightarrow> provider" where
  "fallbackPolling_settled a r s =
     (case r of
        Resolved isPollAgain \<Rightarrow>
          (if isPollAgain then fallbackPolling a s else Subscription_unsubscribe a s)
      | Rejected \<Rightarrow> emit [UnhandledRejection (FallbackTimer a)] s)"

text \<open>A whole tick whose polling callback settles at once.\<close>

definition startPolling_tick :: "addr \<Rightarrow> poll_result \<Rightarrow> provider \<Rightarrow> provider" where
  "startPolling_tick a r s =
     (if startPolling_fires a s then startPolling_settled a r (startPolling_timeout a s) else s)"

definition fallbackPolling_tick :: "addr \<Rightarrow> poll_result \<Rightarrow> provider \<Rightarrow> provider" where
  "fallbackPolling_tick a r s =
     (if fallbackPolling_fires a s then fallbackPolling_settled a r (fallbackPolling_timeout a s)
      else s)"

definition Subscription_subscribe :: "addr \<Rightarrow> provider \<Rightarrow> provider" where
  "Subscription_subscribe a s =
     (let this = objects s a
      in if sub_client this \<and> client_connected s
         then (let h = next_handle s;
                   s1 = s\<lparr>objects := (objects s)(a := this\<lparr>sub_subscription := Some h\<rparr>),
                          next_handle := Suc h\<rparr>
               in fallbackPolling a (emit [ClientSubscribe (sub_topicId this) h] s1))
         else s)"

definition setClientAndSubscribe :: "addr \<Rightarrow> provider \<Rightarrow> provider" where
  "setClientAndSubscribe a s =
     Subscription_subscribe a (s\<lparr>objects := (objects s)(a := (objects s a)\<lparr>sub_client := True\<rparr>)\<rparr>)"

definition onMessage :: "addr \<Rightarrow> nat \<Rightarrow> provider \<Rightarrow> provider" where
  "onMessage a f s = s\<lparr>objects := (objects s)(a := (objects s a)\<lparr>onMessageCallback := Some f\<rparr>)\<rparr>"

text \<open>The field values the constructor stores before it calls \<open>this.subscribe()\<close>.
  \<open>newId\<close> is the result of \<open>generateRandomID()\<close>.\<close>

definition Subscription_fields ::
  "bool \<Rightarrow> string \<Rightarrow> ISubscribeOptions option \<Rightarrow> string \<Rightarrow> subscription" where
  "Subscription_fields client tid options newId =
     \<lparr>sub_id = newId,
      sub_client = client,
      sub_topicId = tid,
      sub_subscription = None,
      pollingCallback = (case options of None \<Rightarrow> None | Some opt \<Rightarrow> opt_pollingCallback opt),
      pollingDelay =
        or_default (case options of None \<Rightarrow> None | Some opt \<Rightarrow> opt_pollingDelay opt)
          DEFAULT_POLLING_DELAY,
      fallbackPollingDelay =
        or_default (case options of None \<Rightarrow> None | Some opt \<Rightarrow> opt_fallbackPollingDelay opt)
          DEFAULT_FIXED_POLLING_DELAY,
      onMessageCallback = None\<rparr>"

text \<open>\<open>new Subscription(client, topicId, options, onUnsubscribe)\<close>: the object is placed at
  the next free address.\<close>

definition Subscription_new ::
  "bool \<Rightarrow> string \<Rightarrow> ISubscribeOptions option \<Rightarrow> string \<Rightarrow> provider \<Rightarrow> provider" where
  "Subscription_new client tid options newId s =
     (let a = next_addr s
      in Subscription_subscribe a
           (s\<lparr>objects := (objects s)(a := Subscription_fields client tid options newId),
              next_addr := Suc a\<rparr>))"

section \<open>WebSocketProvider\<close>

text \<open>The transport primitives the provider calls. \<open>connect\<close> activates the client,
  \<open>disconnect\<close> deactivates it; \<open>connected\<close> changes only when the transport reports a
  success or a close.\<close>

definition client_connect :: "string \<Rightarrow> provider \<Rightarrow> provider" where
  "client_connect tid s = emit [ClientConnect tid] (s\<lparr>client_active := True\<rparr>)"

definition client_disconnect :: "callback \<Rightarrow> provider \<Rightarrow> provider" where
  "client_disconnect cb s = emit [ClientDisconnect cb] (s\<lparr>client_active := False\<rparr>)"

definition resolveAllPromises :: "provider \<Rightarrow> provider" where
  "resolveAllPromises s = emit (map Resolve (promiseArr s)) s"

text \<open>The loops run over \<open>Object.keys(subscriptionsRef.current)\<close>, taken before the loop,
  and look every key up again in the current registry. \<open>startAllPollings\<close> has no test
  for a missing entry; none can be missing there, because \<open>startPolling\<close> does not
  change the registry.\<close>

fun startAllPollings_loop :: "string list \<Rightarrow> provider \<Rightarrow> provider" where
  "startAllPollings_loop [] s = s"
| "startAllPollings_loop (subId # ks) s =
     startAllPollings_loop ks
       (case map_of (subscriptionsRef s) subId of
          Some a \<Rightarrow> startPolling a s
        | None \<Rightarrow> s)"

definition startAllPollings :: "provider \<Rightarrow> provider" where
  "startAllPollings s =
     (if \<not> isPollingActive s
      then startAllPollings_loop (map fst (subscriptionsRef s))
             (emit [PollingActivated] (s\<lparr>isPollingActive := True\<rparr>))
      else s)"

definition checkAndDisconnectClient :: "config option \<Rightarrow> string option \<Rightarrow> provider \<Rightarrow> provider" where
  "checkAndDisconnectClient cfg tid s =
     (if subscriptionsRef s = [] \<and> client_connected s
      then (let s1 = s\<lparr>isClientDisconnectedForced := True\<rparr>;
                s2 = (case beforeDisconnectCallback s1 of
                        Some hook \<Rightarrow>
                          (case send_target cfg of
                             Some url \<Rightarrow>
                               emit [CallBeforeDisconnect tid, ClientSend url (hook tid)] s1
                           | None \<Rightarrow> s1)
                      | None \<Rightarrow> s1)
            in client_disconnect (onDisconnectHandler s2) s2)
      else s)"

fun unsubscribeAll_loop :: "string list \<Rightarrow> provider \<Rightarrow> provider" where
  "unsubscribeAll_loop [] s = s"
| "unsubscribeAll_loop (subId # ks) s =
     unsubscribeAll_loop ks
       (case map_of (subscriptionsRef s) subId of
          Some a \<Rightarrow>
            (let s1 = (if client_connected s then Subscription_unsubscribe a s else s)
             in s1\<lparr>subscriptionsRef := AList.delete subId (subscriptionsRef s1)\<rparr>)
        | None \<Rightarrow> s)"

definition unsubscribeAll :: "config option \<Rightarrow> provider \<Rightarrow> provider" where
  "unsubscribeAll cfg s =
     (let subscriptionKeys = map fst (subscriptionsRef s);
          getLastTopicId =
            (case subscriptionsRef s of
               [(k, a)] \<Rightarrow> Some (sub_topicId (objects s a))
             | _ \<Rightarrow> None);
          s1 = unsubscribeAll_loop subscriptionKeys s
      in checkAndDisconnectClient cfg
           (Some (case getLastTopicId of Some t \<Rightarrow> t | None \<Rightarrow> [])) s1)"

fun setClientAndSubscribeAll_loop :: "string list \<Rightarrow> provider \<Rightarrow> provider" where
  "setClientAndSubscribeAll_loop [] s = s"
| "setClientAndSubscribeAll_loop (subId # ks) s =
     setClientAndSubscribeAll_loop ks
       (case map_of (subscriptionsRef s) subId of
          Some a \<Rightarrow> (if client_connected s then setClientAndSubscribe a s else s)
        | None \<Rightarrow> s)"

definition setClientAndSubscribeAll :: "provider \<Rightarrow> provider" where
  "setClientAndSubscribeAll s = setClientAndSubscribeAll_loop (map fst (subscriptionsRef s)) s"

fun subscribeAll_loop :: "string list \<Rightarrow> provider \<Rightarrow> provider" where
  "subscribeAll_loop [] s = s"
| "subscribeAll_loop (subId # ks) s =
     subscribeAll_loop ks
       (case map_of (subscriptionsRef s) subId of
          Some a \<Rightarrow> (if client_connected s then Subscription_subscribe a s else s)
        | None \<Rightarrow> s)"

definition connectSuccessCallback :: "config option \<Rightarrow> provider \<Rightarrow> provider" where
  "connectSuccessCallback cfg s =
     (let s1 = (if isClientConnectionBroken s
                then subscribeAll_loop (map fst (subscriptionsRef s)) s
                else setClientAndSubscribeAll (resolveAllPromises s))
      in s1\<lparr>isPollingActive := False,
            clientReconnectionTries := 0,
            client_reconnectDelay := reconnectDelay cfg,
            isFirstConnection := False\<rparr>)"

definition connectErrorCallback :: "provider \<Rightarrow> provider" where
  "connectErrorCallback s = (resolveAllPromises s)\<lparr>isFirstConnection := False\<rparr>"

definition connectCloseCallback :: "config option \<Rightarrow> provider \<Rightarrow> provider" where
  "connectCloseCallback cfg s =
     (if \<not> isFirstConnection s
      then (if isClientDisconnectedForced s
            then s\<lparr>isClientDisconnectedForced := False\<rparr>
            else (let s1 = s\<lparr>isClientConnectionBroken := True\<rparr>
                  in if clientReconnectionTries s1 < clientMaxReconnectionTries cfg
                     then (let s2 = startAllPollings s1
                           in s2\<lparr>clientReconnectionTries := clientReconnectionTries s2 + 1\<rparr>)
                     else (let s2 = unsubscribeAll cfg (s1\<lparr>client_reconnectDelay := 0\<rparr>)
                           in emit [Invoke (onDisconnectHandler s2)] s2)))
      else (if clientReconnectionTries s < clientMaxReconnectionTries cfg
            then s\<lparr>clientReconnectionTries := clientReconnectionTries s + 1\<rparr>
            else (resolveAllPromises (s\<lparr>client_reconnectDelay := 0\<rparr>))
                   \<lparr>isFirstConnection := False\<rparr>))"

definition createClient :: "string \<Rightarrow> provider \<Rightarrow> provider" where
  "createClient tid s = (if \<not> client_active s then client_connect tid s else s)"

text \<open>\<open>holdPromise\<close> pushes the \<open>resolve\<close> function of a new promise; the waiter is
  named by the address of the Subscription its caller is waiting to receive.\<close>

definition holdPromise :: "string \<Rightarrow> addr \<Rightarrow> provider \<Rightarrow> provider" where
  "holdPromise tid w s = createClient tid (s\<lparr>promiseArr := promiseArr s @ [w]\<rparr>)"

definition subscribe ::
  "string \<Rightarrow> ISubscribeOptions option \<Rightarrow> string \<Rightarrow> provider \<Rightarrow> provider" where
  "subscribe tid options newId s =
     (let a = next_addr s;
          s1 = Subscription_new (client_connected s) tid options newId s;
          s2 = s1\<lparr>subscriptionsRef := AList.update newId a (subscriptionsRef s1)\<rparr>;
          s3 = (if \<not> client_connected s2 then startPolling a s2 else s2)
      in if isFirstConnection s3 then holdPromise tid a s3 else s3)"

definition onDisconnect :: "callback \<Rightarrow> provider \<Rightarrow> provider" where
  "onDisconnect cb s = s\<lparr>disconnectCallback := cb\<rparr>"

definition onBeforeDisconnect :: "(string option \<Rightarrow> string) \<Rightarrow> provider \<Rightarrow> provider" where
  "onBeforeDisconnect hook s = s\<lparr>beforeDisconnectCallback := Some hook\<rparr>"

definition unsubscribe :: "config option \<Rightarrow> string \<Rightarrow> provider \<Rightarrow> provider" where
  "unsubscribe cfg i s =
     (case map_of (subscriptionsRef s) i of
        None \<Rightarrow> s
      | Some a \<Rightarrow>
          (let tid = (if client_connected s then Some (sub_topicId (objects s a)) else None);
               s1 = (if client_connected s then Subscription_unsubscribe a s else s);
               s2 = s1\<lparr>subscriptionsRef := AList.delete i (subscriptionsRef s1)\<rparr>
           in checkAndDisconnectClient cfg tid s2))"

text \<open>The provider at its first render. \<open>onDisconnectHandler\<close> is
  \<open>useCallback(disconnectCallback.current, [])\<close>: with an empty dependency list the hook
  keeps the function it was given at the first render, which is the initial value of the
  ref.\<close>

definition null_subscription :: subscription where
  "null_subscription =
     \<lparr>sub_id = [], sub_client = False, sub_topicId = [], sub_subscription = None,
      pollingCallback = None, pollingDelay = DEFAULT_POLLING_DELAY,
      fallbackPollingDelay = DEFAULT_FIXED_POLLING_DELAY, onMessageCallback = None\<rparr>"

definition init :: provider where
  "init =
     (let disconnectCallback_current = noOp
      in \<lparr>subscriptionsRef = [],
          disconnectCallback = disconnectCallback_current,
          onDisconnectHandler = disconnectCallback_current,
          beforeDisconnectCallback = None,
          isFirstConnection = True,
          clientReconnectionTries = 0,
          isClientConnectionBroken = False,
          isPollingActive = False,
          isClientDisconnectedForced = False,
          promiseArr = [],
          client_connected = False,
          client_active = False,
          client_reconnectDelay = 0,
          objects = (\<lambda>_. null_subscription),
          next_addr = 0,
          next_handle = 0,
          log = []\<rparr>)"

section \<open>Events\<close>

text \<open>Everything that can happen to a provider: the calls of its context value, the
  three transport callbacks (the transport sets \<open>connected\<close> before it reports a success
  or a close), timers firing, polling callbacks settling, and calls a caller makes on a
  Subscription it holds. A timer fires only if it was set, and a polling callback settles
  only if it was called.\<close>

definition was_set :: "timer \<Rightarrow> provider \<Rightarrow> bool" where
  "was_set t s = list_ex (\<lambda>e. case e of SetTimeout t' d \<Rightarrow> t' = t | _ \<Rightarrow> False) (log s)"

definition was_called :: "timer \<Rightarrow> provider \<Rightarrow> bool" where
  "was_called t s = (PollingCallbackCalled t \<in> set (log s))"

datatype event =
    Subscribe string "ISubscribeOptions option" string
  | Unsubscribe string
  | UnsubscribeAll
  | OnDisconnect callback
  | OnBeforeDisconnect "string option \<Rightarrow> string"
  | ConnectSuccess
  | ConnectError
  | ConnectClose
  | TimerFires timer
  | PollSettles timer poll_result
  | CallUnsubscribe addr
  | CallOnMessage addr nat

fun step :: "config option \<Rightarrow> provider \<Rightarrow> event \<Rightarrow> provider" where
  "step cfg s (Subscribe tid options newId) = subscribe tid options newId s"
| "step cfg s (Unsubscribe i) = unsubscribe cfg i s"
| "step cfg s UnsubscribeAll = unsubscribeAll cfg s"
| "step cfg s (OnDisconnect cb) = onDisconnect cb s"
| "step cfg s (OnBeforeDisconnect hook) = onBeforeDisconnect hook s"
| "step cfg s ConnectSuccess = connectSuccessCallback cfg (s\<lparr>client_connected := True\<rparr>)"
| "step cfg s ConnectError = connectErrorCallback s"
| "step cfg s ConnectClose = connectCloseCallback cfg (s\<lparr>client_connected := False\<rparr>)"
| "step cfg s (TimerFires (PrimaryTimer a)) =
     (if was_set (PrimaryTimer a) s then startPolling_timeout a s else s)"
| "step cfg s (TimerFires (FallbackTimer a)) =
     (if was_set (FallbackTimer a) s then fallbackPolling_timeout a s else s)"
| "step cfg s (PollSettles (PrimaryTimer a) r) =
     (if was_called (PrimaryTimer a) s then startPolling_settled a r s else s)"
| "step cfg s (PollSettles (FallbackTimer a) r) =
     (if was_called (FallbackTimer a) s then fallbackPolling_settled a r s else s)"
| "step cfg s (CallUnsubscribe a) = Subscription_unsubscribe a s"
| "step cfg s (CallOnMessage a f) = onMessage a f s"

definition run :: "config option \<Rightarrow> event list \<Rightarrow> provider \<Rightarrow> provider" where
  "run cfg evs s = foldl (step cfg) s evs"

section \<open>Auxiliary notions\<close>

text \<open>The control part of the provider: the fields that no method of a Subscription and
  no loop over the registry writes.\<close>

definition ctl where
  "ctl s = (isFirstConnection s, clientReconnectionTries s, isClientConnectionBroken s,
     isPollingActive s, isClientDisconnectedForced s, promiseArr s, client_connected s,
     client_active s, client_reconnectDelay s, disconnectCallback s, onDisconnectHandler s,
     beforeDisconnectCallback s)"

text \<open>How many times the guarded body of \<open>startAllPollings\<close> has run.\<close>

definition activations :: "provider \<Rightarrow> nat" where
  "activations s = count_list (log s) PollingActivated"

text \<open>The polling flag together with the number of activations, and a quantity that no
  event other than a successful connect can increase.\<close>

definition pa :: "provider \<Rightarrow> bool \<times> nat" where
  "pa s = (isPollingActive s, count_list (log s) PollingActivated)"

definition potential :: "provider \<Rightarrow> nat" where
  "potential s = activations s + (if isPollingActive s then 0 else 1)"

text \<open>Calls of the transport's disconnect in the log; the effects of \<open>unsubscribe()\<close> on
  the Subscription at an address; the effects of the empty-registry teardown.\<close>

fun is_disconnect :: "effect \<Rightarrow> bool" where
  "is_disconnect (ClientDisconnect c) = True"
| "is_disconnect _ = False"

definition disconnects :: "provider \<Rightarrow> nat" where
  "disconnects s = length (filter is_disconnect (log s))"

definition unsubscribe_effects :: "addr \<Rightarrow> provider \<Rightarrow> effect list" where
  "unsubscribe_effects a s =
     (if sub_client (objects s a) \<and> client_connected s
      then (case sub_subscription (objects s a) of Some h \<Rightarrow> [HandleUnsubscribe h] | None \<Rightarrow> [])
      else []) @ [OnUnsubscribe (sub_id (objects s a))]"

definition teardown_effects :: "config option \<Rightarrow> string option \<Rightarrow> provider \<Rightarrow> effect list" where
  "teardown_effects cfg tid s =
     (case beforeDisconnectCallback s of
        Some hook \<Rightarrow>
          (case send_target cfg of
             Some url \<Rightarrow> [CallBeforeDisconnect tid, ClientSend url (hook tid)]
           | None \<Rightarrow> [])
      | None \<Rightarrow> []) @ [ClientDisconnect (onDisconnectHandler s)]"

text \<open>A Subscription that holds the client also holds a handle.\<close>

definition handles_ok :: "provider \<Rightarrow> bool" where
  "handles_ok s = (\<forall>a. sub_client (objects s a) \<longrightarrow> sub_subscription (objects s a) \<noteq> None)"

lemmas model_defs =
  DEFAULT_POLLING_DELAY_def DEFAULT_FIXED_POLLING_DELAY_def DEFAULT_RECONNECTION_DELAY_def
  DEFAULT_RECONNECTION_TRIES_def or_default_def reconnectDelay_def clientMaxReconnectionTries_def
  send_target_def emit_def onUnsubscribe_def Subscription_unsubscribe_def startPolling_def
  fallbackPolling_def startPolling_fires_def startPolling_timeout_def startPolling_settled_def
  fallbackPolling_fires_def fallbackPolling_timeout_def fallbackPolling_settled_def
  startPolling_tick_def fallbackPolling_tick_def Subscription_subscribe_def
  setClientAndSubscribe_def onMessage_def Subscription_fields_def Subscription_new_def
  client_connect_def client_disconnect_def resolveAllPromises_def startAllPollings_def
  checkAndDisconnectClient_def unsubscribeAll_def setClientAndSubscribeAll_def
  connectSuccessCallback_def connectErrorCallback_def connectCloseCallback_def createClient_def
  holdPromise_def subscribe_def onDisconnect_def onBeforeDisconnect_def unsubscribe_def
  null_subscription_def init_def was_set_def was_called_def run_def Let_def

section \<open>The loops over the registry keep what their bodies keep\<close>

lemma startAllPollings_loop_keeps:
  assumes "\<And>a s. g (startPolling a s) = g s"
  shows "g (startAllPollings_loop ks s) = g s"
  using assms by (induction ks arbitrary: s) (auto split: option.splits)

lemma unsubscribeAll_loop_keeps:
  assumes "\<And>a s. g (Subscription_unsubscribe a s) = g s"
    and "\<And>r s. g (s\<lparr>subscriptionsRef := r\<rparr>) = g s"
  shows "g (unsubscribeAll_loop ks s) = g s"
  using assms by (induction ks arbitrary: s) (auto split: option.splits simp: Let_def)

lemma subscribeAll_loop_keeps:
  assumes "\<And>a s. g (Subscription_subscribe a s) = g s"
  shows "g (subscribeAll_loop ks s) = g s"
  using assms by (induction ks arbitrary: s) (auto split: option.splits)

lemma setClientAndSubscribeAll_loop_keeps:
  assumes "\<And>a s. g (setClientAndSubscribe a s) = g s"
  shows "g (setClientAndSubscribeAll_loop ks s) = g s"
  using assms by (induction ks arbitrary: s) (auto split: option.splits)

section \<open>The methods of a Subscription leave the control part alone\<close>

lemma ctl_emit: "ctl (emit es s) = ctl s"
  by (simp add: ctl_def emit_def)

lemma ctl_onUnsubscribe: "ctl (onUnsubscribe i s) = ctl s"
  by (simp add: ctl_def onUnsubscribe_def emit_def Let_def)

lemma ctl_Subscription_unsubscribe: "ctl (Subscription_unsubscribe a s) = ctl s"
  by (simp add: Subscription_unsubscribe_def Let_def ctl_onUnsubscribe ctl_emit split: option.splits)

lemma ctl_startPolling: "ctl (startPolling a s) = ctl s"
  by (simp add: startPolling_def Let_def ctl_emit)

lemma ctl_fallbackPolling: "ctl (fallbackPolling a s) = ctl s"
  by (simp add: fallbackPolling_def Let_def ctl_emit)

lemma ctl_Subscription_subscribe: "ctl (Subscription_subscribe a s) = ctl s"
  by (simp add: Subscription_subscribe_def Let_def ctl_fallbackPolling ctl_emit) (simp add: ctl_def)

lemma ctl_setClientAndSubscribe: "ctl (setClientAndSubscribe a s) = ctl s"
  by (simp add: setClientAndSubscribe_def ctl_Subscription_subscribe) (simp add: ctl_def)

lemma ctl_setClientAndSubscribeAll: "ctl (setClientAndSubscribeAll s) = ctl s"
  unfolding setClientAndSubscribeAll_def
  by (rule setClientAndSubscribeAll_loop_keeps) (rule ctl_setClientAndSubscribe)

lemma ctl_subscribeAll_loop: "ctl (subscribeAll_loop ks s) = ctl s"
  by (rule subscribeAll_loop_keeps) (rule ctl_Subscription_subscribe)

lemma ctl_startAllPollings_loop: "ctl (startAllPollings_loop ks s) = ctl s"
  by (rule startAllPollings_loop_keeps) (rule ctl_startPolling)

lemma ctl_unsubscribeAll_loop: "ctl (unsubscribeAll_loop ks s) = ctl s"
  by (rule unsubscribeAll_loop_keeps) (simp_all add: ctl_Subscription_unsubscribe, simp add: ctl_def)

lemma ctl_setClientAndSubscribeAll_loop: "ctl (setClientAndSubscribeAll_loop ks s) = ctl s"
  by (rule setClientAndSubscribeAll_loop_keeps) (rule ctl_setClientAndSubscribe)

lemma ctl_fields:
  assumes "ctl s' = ctl s"
  shows "isFirstConnection s' = isFirstConnection s"
    and "clientReconnectionTries s' = clientReconnectionTries s"
    and "isClientConnectionBroken s' = isClientConnectionBroken s"
    and "isPollingActive s' = isPollingActive s"
    and "isClientDisconnectedForced s' = isClientDisconnectedForced s"
    and "promiseArr s' = promiseArr s"
    and "client_connected s' = client_connected s"
    and "client_active s' = client_active s"
    and "client_reconnectDelay s' = client_reconnectDelay s"
    and "disconnectCallback s' = disconnectCallback s"
    and "onDisconnectHandler s' = onDisconnectHandler s"
    and "beforeDisconnectCallback s' = beforeDisconnectCallback s"
  using assms by (simp_all add: ctl_def)

lemmas subscribeAll_loop_fields [simp] = ctl_fields [OF ctl_subscribeAll_loop]
lemmas startAllPollings_loop_fields [simp] = ctl_fields [OF ctl_startAllPollings_loop]
lemmas unsubscribeAll_loop_fields [simp] = ctl_fields [OF ctl_unsubscribeAll_loop]
lemmas setClientAndSubscribeAll_loop_fields [simp] =
  ctl_fields [OF ctl_setClientAndSubscribeAll_loop]

section \<open>The success callback\<close>

text \<open>
  C4, as the code has it. The success callback resets \<open>clientReconnectionTries\<close> to 0,
  ends the first-connection phase (\<open>isFirstConnection\<close> false, that is, the provider has
  connected before), clears \<open>isPollingActive\<close> and restores the configured reconnect
  delay, on the first-connection path and on the recovery path alike. It does not touch
  \<open>isClientConnectionBroken\<close>: the flag keeps the value it had.
\<close>

theorem connectSuccessCallback_postconditions:
  "clientReconnectionTries (connectSuccessCallback cfg s) = 0 \<and>
   \<not> isFirstConnection (connectSuccessCallback cfg s) \<and>
   \<not> isPollingActive (connectSuccessCallback cfg s) \<and>
   client_reconnectDelay (connectSuccessCallback cfg s) = reconnectDelay cfg \<and>
   isClientConnectionBroken (connectSuccessCallback cfg s) = isClientConnectionBroken s"
proof -
  have "ctl (setClientAndSubscribeAll (resolveAllPromises s)) = ctl s"
    by (simp add: ctl_setClientAndSubscribeAll resolveAllPromises_def ctl_emit)
  with ctl_subscribeAll_loop [of _ s] show ?thesis
    by (simp add: connectSuccessCallback_def Let_def ctl_def)
qed

theorem connectSuccessCallback_postconditions_witness:
  "clientReconnectionTries
     (connectSuccessCallback None
        (run None [Subscribe ''orders'' None ''id1'', ConnectSuccess, ConnectClose] init)) = 0 \<and>
   isClientConnectionBroken
     (run None [Subscribe ''orders'' None ''id1'', ConnectSuccess, ConnectClose] init) \<and>
   isClientConnectionBroken
     (connectSuccessCallback None
        (run None [Subscribe ''orders'' None ''id1'', ConnectSuccess, ConnectClose] init))"
  using connectSuccessCallback_postconditions [of None
      "run None [Subscribe ''orders'' None ''id1'', ConnectSuccess, ConnectClose] init"]
  by (simp add: model_defs)

text \<open>
  C4 as stated fails: a subscription is made, the connection succeeds, closes unexpectedly
  and succeeds again; after the second success the connection-broken flag is still set.
\<close>

theorem connectSuccessCallback_keeps_broken_flag:
  "isClientConnectionBroken
     (run None [Subscribe ''orders'' None ''id1'', ConnectSuccess, ConnectClose, ConnectSuccess]
        init)"
  by (simp add: model_defs)

section \<open>The constructor of a Subscription\<close>

text \<open>
  C10. When the options give no \<open>pollingDelay\<close>, or give 0, the constructed Subscription
  stores 3000; when they give no \<open>fallbackPollingDelay\<close>, or give 0, it stores 20000. So
  the stored value is positive in these cases and a caller's 0 is replaced.
\<close>

theorem Subscription_new_falsy_delays:
  "((case options of None \<Rightarrow> None | Some opt \<Rightarrow> opt_pollingDelay opt) \<in> {None, Some 0} \<longrightarrow>
      pollingDelay (objects (Subscription_new c t options i s) (next_addr s)) = 3000) \<and>
   ((case options of None \<Rightarrow> None | Some opt \<Rightarrow> opt_fallbackPollingDelay opt) \<in> {None, Some 0} \<longrightarrow>
      fallbackPollingDelay (objects (Subscription_new c t options i s) (next_addr s)) = 20000)"
  by (auto simp: model_defs split: option.splits)

theorem Subscription_new_falsy_delays_witness:
  "Some (0::int) \<in> {None, Some 0} \<and>
   pollingDelay (objects (Subscription_new False ''orders''
      (Some \<lparr>opt_pollingCallback = None, opt_pollingDelay = Some 0,
             opt_fallbackPollingDelay = Some 0\<rparr>) ''id1'' init) 0) = 3000 \<and>
   fallbackPollingDelay (objects (Subscription_new False ''orders''
      (Some \<lparr>opt_pollingCallback = None, opt_pollingDelay = Some 0,
             opt_fallbackPollingDelay = Some 0\<rparr>) ''id1'' init) 0) = 20000"
  using Subscription_new_falsy_delays [where options =
      "Some \<lparr>opt_pollingCallback = None, opt_pollingDelay = Some 0,
             opt_fallbackPollingDelay = Some 0\<rparr>"
      and c = False and t = "''orders''" and i = "''id1''" and s = init]
  by (simp add: init_def)

section \<open>Failures of the first connection\<close>

lemma connectCloseCallback_first:
  "isFirstConnection s \<Longrightarrow>
   connectCloseCallback cfg s =
     (if clientReconnectionTries s < clientMaxReconnectionTries cfg
      then s\<lparr>clientReconnectionTries := clientReconnectionTries s + 1\<rparr>
      else s\<lparr>client_reconnectDelay := 0, log := log s @ map Resolve (promiseArr s),
             isFirstConnection := False\<rparr>)"
  by (simp add: connectCloseCallback_def resolveAllPromises_def emit_def)

lemma connectCloseCallback_first_funpow:
  "isFirstConnection s \<Longrightarrow> clientReconnectionTries s = 0 \<Longrightarrow>
   int k \<le> clientMaxReconnectionTries cfg \<Longrightarrow>
   (connectCloseCallback cfg ^^ k) s = s\<lparr>clientReconnectionTries := int k\<rparr>"
proof (induction k)
  case 0
  then show ?case by simp
next
  case (Suc k)
  then have "(connectCloseCallback cfg ^^ k) s = s\<lparr>clientReconnectionTries := int k\<rparr>"
    by simp
  then have "(connectCloseCallback cfg ^^ Suc k) s =
      connectCloseCallback cfg (s\<lparr>clientReconnectionTries := int k\<rparr>)"
    by simp
  also have "\<dots> = s\<lparr>clientReconnectionTries := int (Suc k)\<rparr>"
    using Suc.prems by (simp add: connectCloseCallback_first add.commute)
  finally show ?case .
qed

text \<open>
  C1, as the code has it. While the provider has never connected and the counter starts
  at 0, with a maximum \<open>N \<ge> 0\<close>: each of the first \<open>N\<close> consecutive close callbacks only
  increments \<open>clientReconnectionTries\<close> (no waiter is released, nothing else changes); the
  close callback number \<open>N + 1\<close> leaves the counter at \<open>N\<close>, sets the reconnect delay to 0,
  calls every \<open>resolve\<close> in \<open>promiseArr\<close> and ends the first-connection phase. The error
  callback calls every \<open>resolve\<close> and ends the first-connection phase at once, whatever
  the counter is, and does not change the counter.
\<close>

theorem first_connection_failures:
  assumes "isFirstConnection s" and "clientReconnectionTries s = 0"
    and "0 \<le> clientMaxReconnectionTries cfg"
  shows "(\<forall>k. int k \<le> clientMaxReconnectionTries cfg \<longrightarrow>
            (connectCloseCallback cfg ^^ k) s = s\<lparr>clientReconnectionTries := int k\<rparr>) \<and>
         (connectCloseCallback cfg ^^ Suc (nat (clientMaxReconnectionTries cfg))) s =
            s\<lparr>clientReconnectionTries := clientMaxReconnectionTries cfg,
              client_reconnectDelay := 0,
              log := log s @ map Resolve (promiseArr s),
              isFirstConnection := False\<rparr> \<and>
         connectErrorCallback s =
            s\<lparr>log := log s @ map Resolve (promiseArr s), isFirstConnection := False\<rparr>"
proof -
  have k: "(connectCloseCallback cfg ^^ k) s = s\<lparr>clientReconnectionTries := int k\<rparr>"
    if "int k \<le> clientMaxReconnectionTries cfg" for k
    using assms(1,2) that by (rule connectCloseCallback_first_funpow)
  from assms(3) have "int (nat (clientMaxReconnectionTries cfg)) \<le> clientMaxReconnectionTries cfg"
    by simp
  from k [OF this] assms have
    "(connectCloseCallback cfg ^^ Suc (nat (clientMaxReconnectionTries cfg))) s =
       s\<lparr>clientReconnectionTries := clientMaxReconnectionTries cfg,
         client_reconnectDelay := 0,
         log := log s @ map Resolve (promiseArr s),
         isFirstConnection := False\<rparr>"
    by (simp add: connectCloseCallback_first)
  moreover have "connectErrorCallback s =
      s\<lparr>log := log s @ map Resolve (promiseArr s), isFirstConnection := False\<rparr>"
    by (simp add: connectErrorCallback_def resolveAllPromises_def emit_def)
  ultimately show ?thesis using k by blast
qed

text \<open>With the default maximum of 3 and one caller waiting: three closes release nobody,
  the fourth close releases the waiter, and so does a single error callback.\<close>

theorem first_connection_failures_witness:
  "isFirstConnection (subscribe ''orders'' None ''id1'' init) \<and>
   clientReconnectionTries (subscribe ''orders'' None ''id1'' init) = 0 \<and>
   0 \<le> clientMaxReconnectionTries None \<and>
   log ((connectCloseCallback None ^^ 3) (subscribe ''orders'' None ''id1'' init)) =
     [ClientConnect ''orders''] \<and>
   log ((connectCloseCallback None ^^ 4) (subscribe ''orders'' None ''id1'' init)) =
     [ClientConnect ''orders'', Resolve 0] \<and>
   log (connectErrorCallback (subscribe ''orders'' None ''id1'' init)) =
     [ClientConnect ''orders'', Resolve 0]"
proof -
  let ?s = "subscribe ''orders'' None ''id1'' init"
  have h: "isFirstConnection ?s" "clientReconnectionTries ?s = 0"
    "0 \<le> clientMaxReconnectionTries None"
    by (simp_all add: model_defs)
  have m: "nat (clientMaxReconnectionTries None) = 3" by (simp add: model_defs)
  have l: "log ?s = [ClientConnect ''orders'']" "promiseArr ?s = [0]" by (simp_all add: model_defs)
  have t: "int 3 \<le> clientMaxReconnectionTries None" by (simp add: model_defs)
  from first_connection_failures [OF h] have
    a: "(connectCloseCallback None ^^ 3) ?s = ?s\<lparr>clientReconnectionTries := int 3\<rparr>" and
    b: "(connectCloseCallback None ^^ Suc (nat (clientMaxReconnectionTries None))) ?s =
            ?s\<lparr>clientReconnectionTries := clientMaxReconnectionTries None,
              client_reconnectDelay := 0,
              log := log ?s @ map Resolve (promiseArr ?s),
              isFirstConnection := False\<rparr>" and
    c: "connectErrorCallback ?s =
            ?s\<lparr>log := log ?s @ map Resolve (promiseArr ?s), isFirstConnection := False\<rparr>"
    using t by blast+
  have four: "(4::nat) = Suc 3" by simp
  show ?thesis using h a b c l unfolding m four by simp
qed

text \<open>
  C1 as stated fails: one caller subscribes and the connection closes three times in a
  row. The counter has then reached the default maximum of 3, yet the waiter has not been
  released and the first-connection phase is not over.
\<close>

theorem waiters_not_released_at_third_close:
  "clientReconnectionTries
     (run None [Subscribe ''orders'' None ''id1'', ConnectClose, ConnectClose, ConnectClose]
        init) = clientMaxReconnectionTries None \<and>
   promiseArr
     (run None [Subscribe ''orders'' None ''id1'', ConnectClose, ConnectClose, ConnectClose]
        init) = [0] \<and>
   Resolve 0 \<notin> set (log
     (run None [Subscribe ''orders'' None ''id1'', ConnectClose, ConnectClose, ConnectClose]
        init)) \<and>
   isFirstConnection
     (run None [Subscribe ''orders'' None ''id1'', ConnectClose, ConnectClose, ConnectClose]
        init)"
  by (simp add: model_defs)

section \<open>The disconnect notification\<close>

lemma step_onDisconnectHandler: "onDisconnectHandler (step cfg s e) = onDisconnectHandler s"
proof (cases e)
  case (TimerFires t) then show ?thesis by (cases t) (simp_all add: model_defs)
next
  case (PollSettles t r) then show ?thesis
    by (cases t; cases r) (simp_all add: model_defs split: option.splits)
qed (simp_all add: model_defs split: option.splits list.splits)

text \<open>Whatever happens, the function the provider calls on a disconnect is the one it
  memoised at its first render, the no-op; \<open>onDisconnect\<close> only writes the ref.\<close>

lemma reachable_onDisconnectHandler: "onDisconnectHandler (run cfg evs init) = noOp"
proof -
  have "onDisconnectHandler (foldl (step cfg) s evs) = onDisconnectHandler s" for s
    by (induction evs arbitrary: s) (simp_all add: step_onDisconnectHandler)
  then show ?thesis by (simp add: run_def init_def)
qed

text \<open>
  C5 at a concrete input. A caller registers callback 1 with \<open>onDisconnect\<close>.
  On the exhausted-retry path (a subscription, a success, four unexpected closes) the
  provider invokes \<open>noOp\<close>; on the forced path (a subscription, a success, the
  subscription removed) it hands \<open>noOp\<close> to the transport's disconnect. The registered
  callback sits in the ref and appears nowhere in the effect log.
\<close>

theorem registered_disconnect_callback_not_invoked:
  "disconnectCallback
     (run None [OnDisconnect (Callback 1), Subscribe ''orders'' None ''id1'', ConnectSuccess,
                ConnectClose, ConnectClose, ConnectClose, ConnectClose] init) = Callback 1 \<and>
   log
     (run None [OnDisconnect (Callback 1), Subscribe ''orders'' None ''id1'', ConnectSuccess,
                ConnectClose, ConnectClose, ConnectClose, ConnectClose] init) =
     [ClientConnect ''orders'', Resolve 0, ClientSubscribe ''orders'' 0, PollingActivated,
      Invoke noOp] \<and>
   log
     (run None [OnDisconnect (Callback 1), Subscribe ''orders'' None ''id1'', ConnectSuccess,
                Unsubscribe ''id1''] init) =
     [ClientConnect ''orders'', Resolve 0, ClientSubscribe ''orders'' 0, HandleUnsubscribe 0,
      OnUnsubscribe ''id1'', ClientDisconnect noOp]"
  by (simp add: model_defs)

section \<open>The object store\<close>

lemma objects_startAllPollings_loop [simp]: "objects (startAllPollings_loop ks s) = objects s"
  by (rule startAllPollings_loop_keeps) (simp add: model_defs)

lemma objects_unsubscribeAll_loop [simp]: "objects (unsubscribeAll_loop ks s) = objects s"
  by (rule unsubscribeAll_loop_keeps) (simp_all add: model_defs split: option.splits)

lemma handles_ok_Subscription_subscribe:
  "handles_ok s \<Longrightarrow> handles_ok (Subscription_subscribe a s)"
  by (simp add: handles_ok_def model_defs)

lemma handles_ok_setClientAndSubscribe:
  "handles_ok s \<Longrightarrow> client_connected s \<Longrightarrow> handles_ok (setClientAndSubscribe a s)"
  by (simp add: handles_ok_def model_defs)

lemma handles_ok_subscribeAll_loop:
  "handles_ok s \<Longrightarrow> handles_ok (subscribeAll_loop ks s)"
  by (induction ks arbitrary: s) (auto split: option.splits simp: handles_ok_Subscription_subscribe)

lemma handles_ok_setClientAndSubscribeAll_loop:
  "handles_ok s \<Longrightarrow> handles_ok (setClientAndSubscribeAll_loop ks s)"
  by (induction ks arbitrary: s) (auto split: option.splits simp: handles_ok_setClientAndSubscribe)

lemma objects_unsubscribe [simp]: "objects (unsubscribe cfg i s) = objects s"
  by (simp add: model_defs split: option.splits)

lemma objects_unsubscribeAll [simp]: "objects (unsubscribeAll cfg s) = objects s"
  by (simp add: model_defs split: option.splits list.splits)

lemma objects_connectCloseCallback [simp]: "objects (connectCloseCallback cfg s) = objects s"
  by (simp add: connectCloseCallback_def Let_def startAllPollings_def emit_def resolveAllPromises_def)

lemma handles_ok_subscribe: "handles_ok s \<Longrightarrow> handles_ok (subscribe tid options newId s)"
  by (simp add: handles_ok_def model_defs)

lemma handles_ok_connectSuccessCallback:
  "handles_ok s \<Longrightarrow> handles_ok (connectSuccessCallback cfg s)"
proof -
  assume h: "handles_ok s"
  have "handles_ok (subscribeAll_loop ks s)" for ks
    using h by (rule handles_ok_subscribeAll_loop)
  moreover have "handles_ok (setClientAndSubscribeAll (resolveAllPromises s))"
    unfolding setClientAndSubscribeAll_def
    by (rule handles_ok_setClientAndSubscribeAll_loop)
      (use h in \<open>simp add: handles_ok_def resolveAllPromises_def emit_def\<close>)
  ultimately show ?thesis
    by (simp add: connectSuccessCallback_def Let_def handles_ok_def)
qed

lemma handles_ok_step: "handles_ok s \<Longrightarrow> handles_ok (step cfg s e)"
proof (cases e)
  case (TimerFires t) 
  assume "handles_ok s" then show ?thesis using TimerFires
    by (cases t) (simp_all add: handles_ok_def model_defs)
next
  case (PollSettles t r) 
  assume "handles_ok s" then show ?thesis using PollSettles 
    by (cases t; cases r) (simp_all add: handles_ok_def model_defs split: option.splits)
next
  case ConnectSuccess
  assume "handles_ok s"
  then have "handles_ok (s\<lparr>client_connected := True\<rparr>)" by (simp add: handles_ok_def)
  then show ?thesis using ConnectSuccess by (simp add: handles_ok_connectSuccessCallback)
next
  case (Subscribe t opt i)
  assume "handles_ok s" then show ?thesis using Subscribe by (simp add: handles_ok_subscribe)
next
  case ConnectClose
  assume "handles_ok s" then show ?thesis using ConnectClose by (simp add: handles_ok_def)
next
  case ConnectError
  assume "handles_ok s" then show ?thesis using ConnectError by (simp add: handles_ok_def model_defs)
next
  case (Unsubscribe i)
  assume "handles_ok s" then show ?thesis using Unsubscribe by (simp add: handles_ok_def)
next
  case UnsubscribeAll
  assume "handles_ok s" then show ?thesis using UnsubscribeAll by (simp add: handles_ok_def)
next
  case (OnDisconnect c)
  assume "handles_ok s" then show ?thesis using OnDisconnect by (simp add: handles_ok_def model_defs)
next
  case (OnBeforeDisconnect c)
  assume "handles_ok s" then show ?thesis using OnBeforeDisconnect by (simp add: handles_ok_def model_defs)
next
  case (CallUnsubscribe a)
  assume "handles_ok s" then show ?thesis using CallUnsubscribe
    by (simp add: handles_ok_def model_defs split: option.splits)
next
  case (CallOnMessage a f)
  assume "handles_ok s" then show ?thesis using CallOnMessage by (simp add: handles_ok_def model_defs)
qed

lemma handles_ok_reachable: "handles_ok (run cfg evs init)"
proof -
  have "handles_ok s \<Longrightarrow> handles_ok (foldl (step cfg) s evs)" for s
    by (induction evs arbitrary: s) (simp_all add: handles_ok_step)
  moreover have "handles_ok init" by (simp add: handles_ok_def model_defs)
  ultimately show ?thesis by (simp add: run_def)
qed

section \<open>Unsubscribing a Subscription\<close>

text \<open>
  C8. In every state the provider can reach, \<open>unsubscribe()\<close> on any Subscription calls
  \<open>onUnsubscribe\<close> with the Subscription's id, after which the registry has no entry
  under that id; and it calls the transport's \<open>unsubscribe\<close> on the stored handle
  exactly when the Subscription holds the client and the client is connected.
\<close>

theorem Subscription_unsubscribe_effects:
  assumes "s = run cfg evs init"
  shows "(if sub_client (objects s a) \<and> client_connected s
          then \<exists>h. sub_subscription (objects s a) = Some h \<and>
                log (Subscription_unsubscribe a s) =
                  log s @ [HandleUnsubscribe h, OnUnsubscribe (sub_id (objects s a))]
          else log (Subscription_unsubscribe a s) =
                  log s @ [OnUnsubscribe (sub_id (objects s a))]) \<and>
         map_of (subscriptionsRef (Subscription_unsubscribe a s)) (sub_id (objects s a)) = None"
proof -
  from assms have "handles_ok s" by (simp add: handles_ok_reachable)
  then have "sub_client (objects s a) \<Longrightarrow> \<exists>h. sub_subscription (objects s a) = Some h"
    by (auto simp: handles_ok_def)
  moreover have "map_of (subscriptionsRef (Subscription_unsubscribe a s)) (sub_id (objects s a)) = None"
    by (auto simp: model_defs delete_conv' split: option.splits)
  ultimately show ?thesis
    by (auto simp: model_defs split: option.splits)
qed

theorem Subscription_unsubscribe_effects_witness:
  "log (Subscription_unsubscribe 0
     (run None [Subscribe ''orders'' None ''id1'', ConnectSuccess] init)) =
     [ClientConnect ''orders'', Resolve 0, ClientSubscribe ''orders'' 0, HandleUnsubscribe 0,
      OnUnsubscribe ''id1''] \<and>
   map_of (subscriptionsRef (Subscription_unsubscribe 0
     (run None [Subscribe ''orders'' None ''id1'', ConnectSuccess] init))) ''id1'' = None"
  using Subscription_unsubscribe_effects [where cfg = None
      and evs = "[Subscribe ''orders'' None ''id1'', ConnectSuccess]" and a = 0, OF refl]
  by (simp add: model_defs)

section \<open>The poll loops\<close>

text \<open>
  C6, as the code has it. \<open>startPolling\<close> on a Subscription without a polling callback
  does nothing at all: no timer is set, so no tick ever runs for it and \<open>unsubscribe()\<close>
  is not called. With a polling callback it sets one timer with the polling delay. When a
  tick runs while the Subscription has no connected client and the callback returns
  false, the tick calls the callback, then \<open>unsubscribe()\<close> (which removes the registry
  entry), and sets no further timer.
\<close>

theorem startPolling_absent_or_false:
  "(if pollingCallback (objects s a) = None
    then startPolling a s = s
    else log (startPolling a s) =
           log s @ [SetTimeout (PrimaryTimer a) (pollingDelay (objects s a))]) \<and>
   (startPolling_fires a s \<longrightarrow>
      log (startPolling_tick a (Resolved False) s) =
        log s @ [PollingCallbackCalled (PrimaryTimer a), OnUnsubscribe (sub_id (objects s a))] \<and>
      map_of (subscriptionsRef (startPolling_tick a (Resolved False) s)) (sub_id (objects s a)) = None)"
  by (auto simp: model_defs delete_conv' split: option.splits)

theorem startPolling_absent_or_false_witness:
  "startPolling_fires 0
     (run None [Subscribe ''orders''
        (Some \<lparr>opt_pollingCallback = Some 7, opt_pollingDelay = None,
               opt_fallbackPollingDelay = None\<rparr>) ''id1''] init) \<and>
   log (startPolling_tick 0 (Resolved False)
     (run None [Subscribe ''orders''
        (Some \<lparr>opt_pollingCallback = Some 7, opt_pollingDelay = None,
               opt_fallbackPollingDelay = None\<rparr>) ''id1''] init)) =
     [SetTimeout (PrimaryTimer 0) 3000, ClientConnect ''orders'',
      PollingCallbackCalled (PrimaryTimer 0), OnUnsubscribe ''id1''] \<and>
   map_of (subscriptionsRef (startPolling_tick 0 (Resolved False)
     (run None [Subscribe ''orders''
        (Some \<lparr>opt_pollingCallback = Some 7, opt_pollingDelay = None,
               opt_fallbackPollingDelay = None\<rparr>) ''id1''] init))) ''id1'' = None"
  using startPolling_absent_or_false [where a = 0 and s =
      "run None [Subscribe ''orders''
        (Some \<lparr>opt_pollingCallback = Some 7, opt_pollingDelay = None,
               opt_fallbackPollingDelay = None\<rparr>) ''id1''] init"]
  by (simp add: model_defs)

text \<open>
  C6 as stated fails: a caller subscribes without a polling callback while there is no
  connection. \<open>subscribe\<close> calls \<open>startPolling\<close>, and so may anyone again, yet the only
  effect ever logged is the connect: no timer is set, and the entry stays registered.
\<close>

theorem startPolling_without_callback_sets_no_timer:
  "log (run None [Subscribe ''orders'' None ''id1''] init) = [ClientConnect ''orders''] \<and>
   log (startPolling 0 (run None [Subscribe ''orders'' None ''id1''] init)) =
     [ClientConnect ''orders''] \<and>
   map_of (subscriptionsRef
     (startPolling 0 (run None [Subscribe ''orders'' None ''id1''] init))) ''id1'' = Some 0"
  by (simp add: model_defs)

text \<open>
  C7, as the code has it. The timer callbacks have no handler around
  \<open>await this.pollingCallback()\<close>. When the polling callback rejects or throws, the rest
  of the tick is skipped: the loop sets no further timer, \<open>unsubscribe()\<close> is not called
  and the registry is unchanged, and the rejection is left unhandled in the promise of the
  timer callback. This holds for the primary and for the fallback loop.
\<close>

theorem rejected_poll_stops_without_unsubscribe:
  "(startPolling_fires a s \<longrightarrow>
      log (startPolling_tick a Rejected s) =
        log s @ [PollingCallbackCalled (PrimaryTimer a), UnhandledRejection (PrimaryTimer a)] \<and>
      subscriptionsRef (startPolling_tick a Rejected s) = subscriptionsRef s) \<and>
   (fallbackPolling_fires a s \<longrightarrow>
      log (fallbackPolling_tick a Rejected s) =
        log s @ [PollingCallbackCalled (FallbackTimer a), UnhandledRejection (FallbackTimer a)] \<and>
      subscriptionsRef (fallbackPolling_tick a Rejected s) = subscriptionsRef s)"
  by (auto simp: model_defs)

theorem rejected_poll_stops_without_unsubscribe_witness:
  "startPolling_fires 0
     (run None [Subscribe ''orders''
        (Some \<lparr>opt_pollingCallback = Some 7, opt_pollingDelay = None,
               opt_fallbackPollingDelay = None\<rparr>) ''id1''] init) \<and>
   log (startPolling_tick 0 Rejected
     (run None [Subscribe ''orders''
        (Some \<lparr>opt_pollingCallback = Some 7, opt_pollingDelay = None,
               opt_fallbackPollingDelay = None\<rparr>) ''id1''] init)) =
     [SetTimeout (PrimaryTimer 0) 3000, ClientConnect ''orders'',
      PollingCallbackCalled (PrimaryTimer 0), UnhandledRejection (PrimaryTimer 0)] \<and>
   fallbackPolling_fires 0
     (run None [Subscribe ''orders''
        (Some \<lparr>opt_pollingCallback = Some 7, opt_pollingDelay = None,
               opt_fallbackPollingDelay = None\<rparr>) ''id1'', ConnectSuccess] init) \<and>
   log (fallbackPolling_tick 0 Rejected
     (run None [Subscribe ''orders''
        (Some \<lparr>opt_pollingCallback = Some 7, opt_pollingDelay = None,
               opt_fallbackPollingDelay = None\<rparr>) ''id1'', ConnectSuccess] init)) =
     [SetTimeout (PrimaryTimer 0) 3000, ClientConnect ''orders'', Resolve 0,
      ClientSubscribe ''orders'' 0, SetTimeout (FallbackTimer 0) 20000,
      PollingCallbackCalled (FallbackTimer 0), UnhandledRejection (FallbackTimer 0)]"
  using rejected_poll_stops_without_unsubscribe [where a = 0 and s =
      "run None [Subscribe ''orders''
        (Some \<lparr>opt_pollingCallback = Some 7, opt_pollingDelay = None,
               opt_fallbackPollingDelay = None\<rparr>) ''id1''] init"]
    rejected_poll_stops_without_unsubscribe [where a = 0 and s =
      "run None [Subscribe ''orders''
        (Some \<lparr>opt_pollingCallback = Some 7, opt_pollingDelay = None,
               opt_fallbackPollingDelay = None\<rparr>) ''id1'', ConnectSuccess] init"]
  by (simp add: model_defs)

text \<open>
  C7 as stated fails: a Subscription with a polling callback is made while there is no
  connection, its timer fires and the callback rejects. The entry is still registered and
  \<open>onUnsubscribe\<close> was never called, whereas a callback that returns false at the same
  point removes the entry.
\<close>

theorem rejected_poll_is_not_a_false_result:
  "map_of (subscriptionsRef
     (run None [Subscribe ''orders''
        (Some \<lparr>opt_pollingCallback = Some 7, opt_pollingDelay = None,
               opt_fallbackPollingDelay = None\<rparr>) ''id1'',
        TimerFires (PrimaryTimer 0), PollSettles (PrimaryTimer 0) Rejected] init))
     ''id1'' = Some 0 \<and>
   OnUnsubscribe ''id1'' \<notin> set (log
     (run None [Subscribe ''orders''
        (Some \<lparr>opt_pollingCallback = Some 7, opt_pollingDelay = None,
               opt_fallbackPollingDelay = None\<rparr>) ''id1'',
        TimerFires (PrimaryTimer 0), PollSettles (PrimaryTimer 0) Rejected] init)) \<and>
   map_of (subscriptionsRef
     (run None [Subscribe ''orders''
        (Some \<lparr>opt_pollingCallback = Some 7, opt_pollingDelay = None,
               opt_fallbackPollingDelay = None\<rparr>) ''id1'',
        TimerFires (PrimaryTimer 0), PollSettles (PrimaryTimer 0) (Resolved False)] init))
     ''id1'' = None"
  by (simp add: model_defs)

section \<open>Activation of degraded polling\<close>

lemma pa_upd [simp]:
  "pa (s\<lparr>subscriptionsRef := r\<rparr>) = pa s"
  "pa (s\<lparr>isClientDisconnectedForced := b\<rparr>) = pa s"
  "pa (s\<lparr>client_active := b\<rparr>) = pa s"
  "pa (s\<lparr>promiseArr := w\<rparr>) = pa s"
  "pa (s\<lparr>objects := ob\<rparr>) = pa s"
  "pa (s\<lparr>next_addr := n\<rparr>) = pa s"
  "pa (s\<lparr>next_handle := n\<rparr>) = pa s"
  "pa (s\<lparr>isFirstConnection := b\<rparr>) = pa s"
  "pa (s\<lparr>client_reconnectDelay := d\<rparr>) = pa s"
  "pa (s\<lparr>clientReconnectionTries := d\<rparr>) = pa s"
  "pa (s\<lparr>isClientConnectionBroken := b\<rparr>) = pa s"
  "pa (s\<lparr>client_connected := b\<rparr>) = pa s"
  "pa (s\<lparr>disconnectCallback := c\<rparr>) = pa s"
  "pa (s\<lparr>beforeDisconnectCallback := h\<rparr>) = pa s"
  by (simp_all add: pa_def)

lemma pa_emit [simp]: "PollingActivated \<notin> set es \<Longrightarrow> pa (emit es s) = pa s"
  by (simp add: pa_def emit_def)

lemma pa_onUnsubscribe [simp]: "pa (onUnsubscribe i s) = pa s"
  by (simp add: onUnsubscribe_def Let_def)

lemma pa_Subscription_unsubscribe [simp]: "pa (Subscription_unsubscribe a s) = pa s"
  by (simp add: Subscription_unsubscribe_def Let_def split: option.splits)

lemma pa_startPolling [simp]: "pa (startPolling a s) = pa s"
  by (simp add: startPolling_def Let_def)

lemma pa_fallbackPolling [simp]: "pa (fallbackPolling a s) = pa s"
  by (simp add: fallbackPolling_def Let_def)

lemma pa_Subscription_subscribe [simp]: "pa (Subscription_subscribe a s) = pa s"
  by (simp add: Subscription_subscribe_def Let_def)

lemma pa_setClientAndSubscribe [simp]: "pa (setClientAndSubscribe a s) = pa s"
  by (simp add: setClientAndSubscribe_def)

lemma pa_startAllPollings_loop [simp]: "pa (startAllPollings_loop ks s) = pa s"
  by (rule startAllPollings_loop_keeps) simp

lemma pa_unsubscribeAll_loop [simp]: "pa (unsubscribeAll_loop ks s) = pa s"
  by (rule unsubscribeAll_loop_keeps) simp_all

lemma pa_checkAndDisconnectClient [simp]: "pa (checkAndDisconnectClient cfg tid s) = pa s"
  by (simp add: checkAndDisconnectClient_def client_disconnect_def Let_def split: option.splits)

lemma pa_unsubscribeAll [simp]: "pa (unsubscribeAll cfg s) = pa s"
  by (simp add: unsubscribeAll_def Let_def)

lemma pa_unsubscribe [simp]: "pa (unsubscribe cfg i s) = pa s"
  by (simp add: unsubscribe_def Let_def split: option.splits)

lemma pa_subscribe [simp]: "pa (subscribe tid options newId s) = pa s"
  by (simp add: subscribe_def Subscription_new_def holdPromise_def createClient_def
      client_connect_def Let_def)

lemma pa_timers [simp]:
  "pa (startPolling_timeout a s) = pa s"
  "pa (fallbackPolling_timeout a s) = pa s"
  "pa (startPolling_settled a r s) = pa s"
  "pa (fallbackPolling_settled a r s) = pa s"
  by (simp_all add: startPolling_timeout_def fallbackPolling_timeout_def
      startPolling_settled_def fallbackPolling_settled_def split: poll_result.splits)

lemma pa_resolveAllPromises [simp]: "pa (resolveAllPromises s) = pa s"
  by (auto simp: resolveAllPromises_def pa_def emit_def count_list_0_iff)

lemma pa_misc [simp]:
  "pa (onDisconnect cb s) = pa s"
  "pa (onBeforeDisconnect hook s) = pa s"
  "pa (onMessage a f s) = pa s"
  "pa (connectErrorCallback s) = pa s"
  by (simp_all add: onDisconnect_def onBeforeDisconnect_def onMessage_def connectErrorCallback_def)

lemma pa_startAllPollings:
  "pa (startAllPollings s) =
     (if isPollingActive s then pa s else (True, Suc (count_list (log s) PollingActivated)))"
  by (simp add: startAllPollings_def) (simp add: pa_def emit_def)

lemma pa_connectCloseCallback:
  "pa (connectCloseCallback cfg s) = pa s \<or>
   (\<not> isPollingActive s \<and> pa (connectCloseCallback cfg s) = (True, Suc (count_list (log s) PollingActivated)))"
  by (simp add: connectCloseCallback_def Let_def pa_startAllPollings)

lemma pa_step:
  "e \<noteq> ConnectSuccess \<Longrightarrow>
   pa (step cfg s e) = pa s \<or>
   (\<not> isPollingActive s \<and> pa (step cfg s e) = (True, Suc (count_list (log s) PollingActivated)))"
proof (cases e)
  case (TimerFires t) then show ?thesis by (cases t) simp_all
next
  case (PollSettles t r) then show ?thesis by (cases t) simp_all
next
  case ConnectClose
  then show ?thesis using pa_connectCloseCallback [of cfg "s\<lparr>client_connected := False\<rparr>"]
    by (simp add: pa_def)
qed simp_all

lemma potential_step: "e \<noteq> ConnectSuccess \<Longrightarrow> potential (step cfg s e) \<le> potential s"
  using pa_step [of e cfg s] by (auto simp: pa_def potential_def activations_def)

lemma active_step:
  "e \<noteq> ConnectSuccess \<Longrightarrow> isPollingActive s \<Longrightarrow> isPollingActive (step cfg s e)"
  using pa_step [of e cfg s] by (auto simp: pa_def)

lemma potential_run:
  "ConnectSuccess \<notin> set evs \<Longrightarrow> potential (foldl (step cfg) s evs) \<le> potential s"
proof (induction evs arbitrary: s)
  case Nil
  then show ?case by simp
next
  case (Cons e evs)
  then have "potential (foldl (step cfg) (step cfg s e) evs) \<le> potential (step cfg s e)"
    by simp
  also have "\<dots> \<le> potential s" using Cons.prems potential_step [of e cfg s] by auto
  finally show ?case by simp
qed

lemma active_run:
  "ConnectSuccess \<notin> set evs \<Longrightarrow> isPollingActive s \<Longrightarrow> isPollingActive (foldl (step cfg) s evs)"
proof (induction evs arbitrary: s)
  case Nil
  then show ?case by simp
next
  case (Cons e evs)
  then have "isPollingActive (step cfg s e)" using active_step [of e s cfg] by auto
  with Cons show ?case by simp
qed

text \<open>
  C9. From any state, over any sequence of events that contains no successful connect
  (closes, errors, subscriptions, removals, timers, in any number and order), the guarded
  body of \<open>startAllPollings\<close> runs at most once; and if the polling flag is already set,
  the flag stays set and the body does not run at all.
\<close>

theorem startAllPollings_at_most_once:
  assumes "ConnectSuccess \<notin> set evs"
  shows "activations (run cfg evs s) \<le> activations s + 1 \<and>
         (isPollingActive s \<longrightarrow>
            isPollingActive (run cfg evs s) \<and> activations (run cfg evs s) \<le> activations s)"
proof -
  have "activations (run cfg evs s) \<le> potential (run cfg evs s)"
    by (simp add: potential_def)
  also have "\<dots> \<le> potential s"
    using assms unfolding run_def by (rule potential_run)
  finally have p: "activations (run cfg evs s) \<le> potential s" .
  then show ?thesis using active_run [OF assms, of s cfg]
    by (auto simp: potential_def run_def split: if_splits)
qed

text \<open>After a subscription and a success, three unexpected closes activate polling
  once; a fourth event sequence starting with the flag set activates nothing.\<close>

theorem startAllPollings_at_most_once_witness:
  "ConnectSuccess \<notin> set [ConnectClose, ConnectClose, ConnectClose] \<and>
   activations (run None [Subscribe ''orders'' None ''id1'', ConnectSuccess] init) = 0 \<and>
   activations (run None [ConnectClose, ConnectClose, ConnectClose]
     (run None [Subscribe ''orders'' None ''id1'', ConnectSuccess] init)) = 1 \<and>
   isPollingActive
     (run None [Subscribe ''orders'' None ''id1'', ConnectSuccess, ConnectClose] init) \<and>
   activations (run None [ConnectClose, ConnectClose, ConnectClose]
     (run None [Subscribe ''orders'' None ''id1'', ConnectSuccess, ConnectClose] init)) = 1"
proof -
  have a: "ConnectSuccess \<notin> set [ConnectClose, ConnectClose, ConnectClose]" by simp
  have "1 \<le> activations (run None [ConnectClose, ConnectClose, ConnectClose]
     (run None [Subscribe ''orders'' None ''id1'', ConnectSuccess] init))"
    by (simp add: activations_def model_defs)
  moreover have
    "activations (run None [Subscribe ''orders'' None ''id1'', ConnectSuccess] init) = 0"
    by (simp add: activations_def model_defs)
  moreover have "isPollingActive
     (run None [Subscribe ''orders'' None ''id1'', ConnectSuccess, ConnectClose] init)"
    by (simp add: model_defs)
  moreover have "1 \<le> activations (run None [ConnectClose, ConnectClose, ConnectClose]
     (run None [Subscribe ''orders'' None ''id1'', ConnectSuccess, ConnectClose] init))"
    by (simp add: activations_def model_defs)
  moreover have "activations
     (run None [Subscribe ''orders'' None ''id1'', ConnectSuccess, ConnectClose] init) = 1"
    by (simp add: activations_def model_defs)
  ultimately show ?thesis
    using startAllPollings_at_most_once [OF a, of None
        "run None [Subscribe ''orders'' None ''id1'', ConnectSuccess] init"]
      startAllPollings_at_most_once [OF a, of None
        "run None [Subscribe ''orders'' None ''id1'', ConnectSuccess, ConnectClose] init"]
    by simp
qed

section \<open>The retry counter and the teardown after the last retry\<close>

lemma tries_Subscription_unsubscribe [simp]:
  "clientReconnectionTries (Subscription_unsubscribe a s) = clientReconnectionTries s"
  by (rule ctl_fields [OF ctl_Subscription_unsubscribe])

lemma tries_checkAndDisconnectClient [simp]:
  "clientReconnectionTries (checkAndDisconnectClient cfg tid s) = clientReconnectionTries s"
  by (simp add: checkAndDisconnectClient_def client_disconnect_def emit_def Let_def split: option.splits)

lemma tries_unsubscribeAll [simp]:
  "clientReconnectionTries (unsubscribeAll cfg s) = clientReconnectionTries s"
  by (simp add: unsubscribeAll_def Let_def)

lemma tries_unsubscribe [simp]:
  "clientReconnectionTries (unsubscribe cfg i s) = clientReconnectionTries s"
  by (simp add: unsubscribe_def Let_def split: option.splits)

lemma tries_subscribe [simp]:
  "clientReconnectionTries (subscribe tid options newId s) = clientReconnectionTries s"
  by (simp add: subscribe_def Subscription_new_def Subscription_subscribe_def startPolling_def
      fallbackPolling_def holdPromise_def createClient_def client_connect_def emit_def Let_def)

lemma tries_timers [simp]:
  "clientReconnectionTries (startPolling_timeout a s) = clientReconnectionTries s"
  "clientReconnectionTries (fallbackPolling_timeout a s) = clientReconnectionTries s"
  "clientReconnectionTries (startPolling_settled a r s) = clientReconnectionTries s"
  "clientReconnectionTries (fallbackPolling_settled a r s) = clientReconnectionTries s"
  by (simp_all add: startPolling_timeout_def fallbackPolling_timeout_def
      startPolling_settled_def fallbackPolling_settled_def startPolling_def fallbackPolling_def
      emit_def Let_def split: poll_result.splits)

lemma tries_misc [simp]:
  "clientReconnectionTries (onDisconnect cb s) = clientReconnectionTries s"
  "clientReconnectionTries (onBeforeDisconnect hook s) = clientReconnectionTries s"
  "clientReconnectionTries (onMessage a f s) = clientReconnectionTries s"
  "clientReconnectionTries (connectErrorCallback s) = clientReconnectionTries s"
  by (simp_all add: onDisconnect_def onBeforeDisconnect_def onMessage_def connectErrorCallback_def
      resolveAllPromises_def emit_def)

lemma tries_connectSuccessCallback [simp]:
  "clientReconnectionTries (connectSuccessCallback cfg s) = 0"
  by (simp add: connectSuccessCallback_def Let_def)

lemma tries_connectCloseCallback:
  "clientReconnectionTries (connectCloseCallback cfg s) = clientReconnectionTries s \<or>
   (clientReconnectionTries s < clientMaxReconnectionTries cfg \<and>
    clientReconnectionTries (connectCloseCallback cfg s) = clientReconnectionTries s + 1)"
  by (simp add: connectCloseCallback_def Let_def startAllPollings_def emit_def resolveAllPromises_def)

lemma tries_step:
  assumes "0 \<le> clientReconnectionTries s \<and> clientReconnectionTries s \<le> clientMaxReconnectionTries cfg"
  shows "0 \<le> clientReconnectionTries (step cfg s e) \<and>
         clientReconnectionTries (step cfg s e) \<le> clientMaxReconnectionTries cfg"
proof (cases e)
  case (TimerFires t) then show ?thesis using assms by (cases t) simp_all
next
  case (PollSettles t r) then show ?thesis using assms by (cases t) simp_all
next
  case ConnectClose
  then show ?thesis
    using assms tries_connectCloseCallback [of cfg "s\<lparr>client_connected := False\<rparr>"] by auto
next
  case ConnectSuccess
  then show ?thesis using assms by simp
qed (use assms in simp_all)

lemma tries_foldl:
  "0 \<le> clientReconnectionTries s \<and> clientReconnectionTries s \<le> clientMaxReconnectionTries cfg \<Longrightarrow>
   0 \<le> clientReconnectionTries (foldl (step cfg) s evs) \<and>
   clientReconnectionTries (foldl (step cfg) s evs) \<le> clientMaxReconnectionTries cfg"
proof (induction evs arbitrary: s)
  case Nil then show ?case by simp
next
  case (Cons e evs)
  from tries_step [OF Cons.prems] show ?case by (simp add: Cons.IH)
qed

lemma registry_startAllPollings_loop [simp]:
  "subscriptionsRef (startAllPollings_loop ks s) = subscriptionsRef s"
  by (rule startAllPollings_loop_keeps) (simp add: startPolling_def emit_def Let_def)

lemma keys_delete: "fst ` set (AList.delete k al) = fst ` set al - {k}"
  by (force simp: AList.delete_eq)

lemma keys_Subscription_unsubscribe:
  "fst ` set (subscriptionsRef (Subscription_unsubscribe a s)) \<subseteq> fst ` set (subscriptionsRef s)"
  by (auto simp: Subscription_unsubscribe_def onUnsubscribe_def emit_def Let_def AList.delete_eq
      split: option.splits)

lemma keys_unsubscribeAll_loop:
  "fst ` set (subscriptionsRef (unsubscribeAll_loop ks s)) \<subseteq> fst ` set (subscriptionsRef s) - set ks"
proof (induction ks arbitrary: s)
  case Nil
  then show ?case by simp
next
  case (Cons k ks)
  show ?case
  proof (cases "map_of (subscriptionsRef s) k")
    case None
    then have "k \<notin> fst ` set (subscriptionsRef s)" by (simp add: map_of_eq_None_iff)
    with Cons.IH [of s] have "fst ` set (subscriptionsRef (unsubscribeAll_loop ks s))
        \<subseteq> fst ` set (subscriptionsRef s) - set (k # ks)"
      by auto
    moreover from None have "unsubscribeAll_loop (k # ks) s = unsubscribeAll_loop ks s" by simp
    ultimately show ?thesis by (simp only:)
  next
    case (Some a)
    define s1 where "s1 = (if client_connected s then Subscription_unsubscribe a s else s)"
    define s2 where "s2 = s1\<lparr>subscriptionsRef := AList.delete k (subscriptionsRef s1)\<rparr>"
    have "fst ` set (subscriptionsRef s1) \<subseteq> fst ` set (subscriptionsRef s)"
      using keys_Subscription_unsubscribe [of a s] by (simp add: s1_def)
    moreover have "fst ` set (subscriptionsRef s2) = fst ` set (subscriptionsRef s1) - {k}"
      by (simp add: s2_def keys_delete)
    ultimately have "fst ` set (subscriptionsRef s2) \<subseteq> fst ` set (subscriptionsRef s) - {k}"
      by blast
    with Cons.IH [of s2] have "fst ` set (subscriptionsRef (unsubscribeAll_loop ks s2))
        \<subseteq> fst ` set (subscriptionsRef s) - set (k # ks)"
      by auto
    moreover from Some have "unsubscribeAll_loop (k # ks) s = unsubscribeAll_loop ks s2"
      by (simp add: s1_def s2_def Let_def)
    ultimately show ?thesis by (simp only:)
  qed
qed

lemma registry_unsubscribeAll_loop_all:
  "subscriptionsRef (unsubscribeAll_loop (map fst (subscriptionsRef s)) s) = []"
  using keys_unsubscribeAll_loop [of "map fst (subscriptionsRef s)" s] by simp

lemma log_unsubscribeAll_loop_disconnected:
  "\<not> client_connected s \<Longrightarrow> log (unsubscribeAll_loop ks s) = log s"
  by (induction ks arbitrary: s) (simp_all split: option.splits)

lemma registry_checkAndDisconnectClient [simp]:
  "subscriptionsRef (checkAndDisconnectClient cfg tid s) = subscriptionsRef s"
  by (simp add: checkAndDisconnectClient_def client_disconnect_def emit_def Let_def split: option.splits)

lemma registry_unsubscribeAll [simp]: "subscriptionsRef (unsubscribeAll cfg s) = []"
  by (simp add: unsubscribeAll_def Let_def registry_unsubscribeAll_loop_all)

lemma log_unsubscribeAll_disconnected:
  "\<not> client_connected s \<Longrightarrow> log (unsubscribeAll cfg s) = log s"
  by (simp add: unsubscribeAll_def Let_def checkAndDisconnectClient_def
      log_unsubscribeAll_loop_disconnected)

lemma handler_unsubscribeAll [simp]:
  "onDisconnectHandler (unsubscribeAll cfg s) = onDisconnectHandler s"
  "client_reconnectDelay (unsubscribeAll cfg s) = client_reconnectDelay s"
  by (simp_all add: unsubscribeAll_def checkAndDisconnectClient_def client_disconnect_def emit_def
      Let_def split: option.splits)

lemma close_exhausted:
  assumes "\<not> isFirstConnection s" "\<not> isClientDisconnectedForced s"
    "\<not> clientReconnectionTries s < clientMaxReconnectionTries cfg"
  shows "subscriptionsRef (step cfg s ConnectClose) = []"
    and "log (step cfg s ConnectClose) = log s @ [Invoke (onDisconnectHandler s)]"
    and "client_reconnectDelay (step cfg s ConnectClose) = 0"
  using assms
  by (simp_all add: connectCloseCallback_def Let_def emit_def log_unsubscribeAll_disconnected)

lemma close_retry:
  assumes "\<not> isFirstConnection s" "\<not> isClientDisconnectedForced s"
    "clientReconnectionTries s < clientMaxReconnectionTries cfg"
  shows "subscriptionsRef (step cfg s ConnectClose) = subscriptionsRef s"
    and "clientReconnectionTries (step cfg s ConnectClose) = clientReconnectionTries s + 1"
    and "\<not> isFirstConnection (step cfg s ConnectClose)"
    and "\<not> isClientDisconnectedForced (step cfg s ConnectClose)"
    and "onDisconnectHandler (step cfg s ConnectClose) = onDisconnectHandler s"
  using assms
  by (simp_all add: connectCloseCallback_def Let_def emit_def startAllPollings_def)

lemma closes_retry:
  assumes "\<not> isFirstConnection s" "\<not> isClientDisconnectedForced s" "clientReconnectionTries s = 0"
  shows "int k \<le> clientMaxReconnectionTries cfg \<Longrightarrow>
         subscriptionsRef (run cfg (replicate k ConnectClose) s) = subscriptionsRef s \<and>
         clientReconnectionTries (run cfg (replicate k ConnectClose) s) = int k \<and>
         \<not> isFirstConnection (run cfg (replicate k ConnectClose) s) \<and>
         \<not> isClientDisconnectedForced (run cfg (replicate k ConnectClose) s) \<and>
         onDisconnectHandler (run cfg (replicate k ConnectClose) s) = onDisconnectHandler s"
proof (induction k)
  case 0
  then show ?case using assms by (simp add: run_def)
next
  case (Suc k)
  let ?sk = "run cfg (replicate k ConnectClose) s"
  have r: "run cfg (replicate (Suc k) ConnectClose) s = step cfg ?sk ConnectClose"
    by (simp add: run_def replicate_append_same [symmetric])
  from Suc have ih: "subscriptionsRef ?sk = subscriptionsRef s"
    "clientReconnectionTries ?sk = int k" "\<not> isFirstConnection ?sk"
    "\<not> isClientDisconnectedForced ?sk" "onDisconnectHandler ?sk = onDisconnectHandler s"
    by simp_all
  from Suc.prems ih have lt: "clientReconnectionTries ?sk < clientMaxReconnectionTries cfg"
    by simp
  from close_retry [OF ih(3,4) lt] ih show ?case unfolding r by simp
qed

text \<open>
  C2, as the code has it, for a configured maximum \<open>N \<ge> 0\<close>. In every state reachable
  from the initial provider \<open>clientReconnectionTries \<le> N\<close>. After a success (the
  provider has connected before, no forced disconnect is pending, the counter is 0) each
  of the first \<open>N\<close> consecutive closes increments the counter and leaves the registry as
  it is; close number \<open>N + 1\<close> empties the registry and adds exactly one effect to the
  log, the call of \<open>onDisconnectHandler\<close>. As the client is not connected when it reports
  a close, the entries are deleted without a call of \<open>unsubscribe()\<close> on them.
\<close>

theorem retries_bounded_and_teardown:
  assumes "0 \<le> clientMaxReconnectionTries cfg"
  shows "clientReconnectionTries (run cfg evs init) \<le> clientMaxReconnectionTries cfg \<and>
    (\<not> isFirstConnection s \<and> \<not> isClientDisconnectedForced s \<and> clientReconnectionTries s = 0 \<longrightarrow>
      (\<forall>k. int k \<le> clientMaxReconnectionTries cfg \<longrightarrow>
         clientReconnectionTries (run cfg (replicate k ConnectClose) s) = int k \<and>
         subscriptionsRef (run cfg (replicate k ConnectClose) s) = subscriptionsRef s) \<and>
      subscriptionsRef
        (run cfg (replicate (Suc (nat (clientMaxReconnectionTries cfg))) ConnectClose) s) = [] \<and>
      log (run cfg (replicate (Suc (nat (clientMaxReconnectionTries cfg))) ConnectClose) s) =
        log (run cfg (replicate (nat (clientMaxReconnectionTries cfg)) ConnectClose) s) @
          [Invoke (onDisconnectHandler s)])"
proof -
  have "clientReconnectionTries init = 0" by (simp add: init_def)
  with assms tries_foldl [of init cfg evs]
  have inv: "clientReconnectionTries (run cfg evs init) \<le> clientMaxReconnectionTries cfg"
    by (simp add: run_def)
  have rest: "(\<forall>k. int k \<le> clientMaxReconnectionTries cfg \<longrightarrow>
         clientReconnectionTries (run cfg (replicate k ConnectClose) s) = int k \<and>
         subscriptionsRef (run cfg (replicate k ConnectClose) s) = subscriptionsRef s) \<and>
      subscriptionsRef
        (run cfg (replicate (Suc (nat (clientMaxReconnectionTries cfg))) ConnectClose) s) = [] \<and>
      log (run cfg (replicate (Suc (nat (clientMaxReconnectionTries cfg))) ConnectClose) s) =
        log (run cfg (replicate (nat (clientMaxReconnectionTries cfg)) ConnectClose) s) @
          [Invoke (onDisconnectHandler s)]"
    if h: "\<not> isFirstConnection s" "\<not> isClientDisconnectedForced s" "clientReconnectionTries s = 0"
  proof -
    let ?n = "nat (clientMaxReconnectionTries cfg)"
    let ?sn = "run cfg (replicate ?n ConnectClose) s"
    from assms have "int ?n \<le> clientMaxReconnectionTries cfg" by simp
    from closes_retry [OF h this] assms have n:
      "clientReconnectionTries ?sn = clientMaxReconnectionTries cfg" "\<not> isFirstConnection ?sn"
      "\<not> isClientDisconnectedForced ?sn" "onDisconnectHandler ?sn = onDisconnectHandler s"
      by simp_all
    then have ex: "\<not> clientReconnectionTries ?sn < clientMaxReconnectionTries cfg" by simp
    have r: "run cfg (replicate (Suc ?n) ConnectClose) s = step cfg ?sn ConnectClose"
      by (simp add: run_def replicate_append_same [symmetric])
    from close_exhausted [OF n(2,3) ex] n(4) closes_retry [OF h] show ?thesis
      unfolding r by simp
  qed
  from inv rest show ?thesis by blast
qed

theorem retries_bounded_and_teardown_witness:
  "0 \<le> clientMaxReconnectionTries None \<and>
   clientReconnectionTries
     (run None [Subscribe ''orders'' None ''id1'', ConnectSuccess, ConnectClose, ConnectClose]
        init) \<le> 3 \<and>
   \<not> isFirstConnection (run None [Subscribe ''orders'' None ''id1'', ConnectSuccess] init) \<and>
   \<not> isClientDisconnectedForced
     (run None [Subscribe ''orders'' None ''id1'', ConnectSuccess] init) \<and>
   clientReconnectionTries
     (run None [Subscribe ''orders'' None ''id1'', ConnectSuccess] init) = 0 \<and>
   clientReconnectionTries (run None (replicate 3 ConnectClose)
     (run None [Subscribe ''orders'' None ''id1'', ConnectSuccess] init)) = 3 \<and>
   subscriptionsRef (run None (replicate 3 ConnectClose)
     (run None [Subscribe ''orders'' None ''id1'', ConnectSuccess] init)) = [(''id1'', 0)] \<and>
   subscriptionsRef (run None (replicate 4 ConnectClose)
     (run None [Subscribe ''orders'' None ''id1'', ConnectSuccess] init)) = []"
proof -
  define s where "s = run None [Subscribe ''orders'' None ''id1'', ConnectSuccess] init"
  define evs where
    "evs = [Subscribe ''orders'' None ''id1'', ConnectSuccess, ConnectClose, ConnectClose]"
  have m: "0 \<le> clientMaxReconnectionTries None" "nat (clientMaxReconnectionTries None) = 3"
    "clientMaxReconnectionTries None = 3"
    by (simp_all add: clientMaxReconnectionTries_def or_default_def DEFAULT_RECONNECTION_TRIES_def)
  have h: "\<not> isFirstConnection s \<and> \<not> isClientDisconnectedForced s \<and>
    clientReconnectionTries s = 0"
    unfolding s_def by (simp add: model_defs)
  have r: "subscriptionsRef s = [(''id1'', 0)]"
    unfolding s_def by (simp add: model_defs)
  note inst = retries_bounded_and_teardown [OF m(1), of evs s]
  from inst have inv: "clientReconnectionTries (run None evs init) \<le> 3"
    unfolding m(3) by (rule conjunct1)
  from inst h have rest:
    "(\<forall>k. int k \<le> clientMaxReconnectionTries None \<longrightarrow>
         clientReconnectionTries (run None (replicate k ConnectClose) s) = int k \<and>
         subscriptionsRef (run None (replicate k ConnectClose) s) = subscriptionsRef s) \<and>
      subscriptionsRef
        (run None (replicate (Suc (nat (clientMaxReconnectionTries None))) ConnectClose) s) = [] \<and>
      log (run None (replicate (Suc (nat (clientMaxReconnectionTries None))) ConnectClose) s) =
        log (run None (replicate (nat (clientMaxReconnectionTries None)) ConnectClose) s) @
          [Invoke (onDisconnectHandler s)]"
    by (rule mp [OF conjunct2])
  have t: "int 3 \<le> clientMaxReconnectionTries None" by (simp add: m(3))
  from rest have all: "\<forall>k. int k \<le> clientMaxReconnectionTries None \<longrightarrow>
         clientReconnectionTries (run None (replicate k ConnectClose) s) = int k \<and>
         subscriptionsRef (run None (replicate k ConnectClose) s) = subscriptionsRef s"
    by (rule conjunct1)
  have three: "clientReconnectionTries (run None (replicate 3 ConnectClose) s) = int 3 \<and>
         subscriptionsRef (run None (replicate 3 ConnectClose) s) = subscriptionsRef s"
    by (rule mp [OF spec [OF all]]) (rule t)
  from rest have "subscriptionsRef
        (run None (replicate (Suc (nat (clientMaxReconnectionTries None))) ConnectClose) s) = []"
    by (rule conjunct1 [OF conjunct2])
  then have four: "subscriptionsRef (run None (replicate 4 ConnectClose) s) = []"
    unfolding m(2) by (simp add: eval_nat_numeral)
  from m(1) inv h three four r show ?thesis
    unfolding s_def [symmetric] evs_def [symmetric] by simp
qed


text \<open>
  C2 as stated fails on "every entry unsubscribed": one subscription is bound with live
  handle 0, and the connection then closes four times. The fourth close empties the
  registry, but neither the transport's \<open>unsubscribe\<close> on handle 0 nor \<open>onUnsubscribe\<close>
  for the entry was ever called.
\<close>

theorem teardown_drops_entries_without_unsubscribe:
  "sub_subscription (objects
     (run None [Subscribe ''orders'' None ''id1'', ConnectSuccess] init) 0) = Some 0 \<and>
   subscriptionsRef
     (run None [Subscribe ''orders'' None ''id1'', ConnectSuccess,
                ConnectClose, ConnectClose, ConnectClose] init) = [(''id1'', 0)] \<and>
   subscriptionsRef
     (run None [Subscribe ''orders'' None ''id1'', ConnectSuccess,
                ConnectClose, ConnectClose, ConnectClose, ConnectClose] init) = [] \<and>
   HandleUnsubscribe 0 \<notin> set (log
     (run None [Subscribe ''orders'' None ''id1'', ConnectSuccess,
                ConnectClose, ConnectClose, ConnectClose, ConnectClose] init)) \<and>
   OnUnsubscribe ''id1'' \<notin> set (log
     (run None [Subscribe ''orders'' None ''id1'', ConnectSuccess,
                ConnectClose, ConnectClose, ConnectClose, ConnectClose] init))"
  by (simp add: model_defs)


section \<open>Disconnecting when the registry is empty\<close>

lemma dc_upd [simp]:
  "disconnects (s\<lparr>subscriptionsRef := r\<rparr>) = disconnects s"
  "disconnects (s\<lparr>isClientDisconnectedForced := b\<rparr>) = disconnects s"
  "disconnects (s\<lparr>client_active := b\<rparr>) = disconnects s"
  "disconnects (s\<lparr>promiseArr := w\<rparr>) = disconnects s"
  "disconnects (s\<lparr>objects := ob\<rparr>) = disconnects s"
  "disconnects (s\<lparr>next_addr := n\<rparr>) = disconnects s"
  "disconnects (s\<lparr>next_handle := n\<rparr>) = disconnects s"
  "disconnects (s\<lparr>isFirstConnection := b\<rparr>) = disconnects s"
  "disconnects (s\<lparr>client_reconnectDelay := d\<rparr>) = disconnects s"
  "disconnects (s\<lparr>clientReconnectionTries := d\<rparr>) = disconnects s"
  "disconnects (s\<lparr>isClientConnectionBroken := b\<rparr>) = disconnects s"
  "disconnects (s\<lparr>isPollingActive := b\<rparr>) = disconnects s"
  "disconnects (s\<lparr>client_connected := b\<rparr>) = disconnects s"
  "disconnects (s\<lparr>disconnectCallback := c\<rparr>) = disconnects s"
  "disconnects (s\<lparr>beforeDisconnectCallback := h\<rparr>) = disconnects s"
  by (simp_all add: disconnects_def)

lemma dc_log_append [simp]:
  "disconnects (s\<lparr>log := log s' @ es\<rparr>) = disconnects s' + length (filter is_disconnect es)"
  by (simp add: disconnects_def)

lemma dc_emit [simp]:
  "disconnects (emit es s) = disconnects s + length (filter is_disconnect es)"
  by (simp add: disconnects_def emit_def)

lemma dc_onUnsubscribe [simp]: "disconnects (onUnsubscribe i s) = disconnects s"
  by (simp add: onUnsubscribe_def Let_def)

lemma dc_Subscription_unsubscribe [simp]: "disconnects (Subscription_unsubscribe a s) = disconnects s"
  by (simp add: Subscription_unsubscribe_def Let_def split: option.splits)

lemma dc_startPolling [simp]: "disconnects (startPolling a s) = disconnects s"
  by (simp add: startPolling_def Let_def)

lemma dc_fallbackPolling [simp]: "disconnects (fallbackPolling a s) = disconnects s"
  by (simp add: fallbackPolling_def Let_def)

lemma dc_Subscription_subscribe [simp]: "disconnects (Subscription_subscribe a s) = disconnects s"
  by (simp add: Subscription_subscribe_def Let_def)

lemma dc_setClientAndSubscribe [simp]: "disconnects (setClientAndSubscribe a s) = disconnects s"
  by (simp add: setClientAndSubscribe_def)

lemma dc_startAllPollings_loop [simp]: "disconnects (startAllPollings_loop ks s) = disconnects s"
  by (rule startAllPollings_loop_keeps) simp

lemma dc_unsubscribeAll_loop [simp]: "disconnects (unsubscribeAll_loop ks s) = disconnects s"
  by (rule unsubscribeAll_loop_keeps) simp_all

lemma dc_subscribeAll_loop [simp]: "disconnects (subscribeAll_loop ks s) = disconnects s"
  by (rule subscribeAll_loop_keeps) simp

lemma dc_setClientAndSubscribeAll_loop [simp]:
  "disconnects (setClientAndSubscribeAll_loop ks s) = disconnects s"
  by (rule setClientAndSubscribeAll_loop_keeps) simp

lemma dc_resolveAllPromises [simp]: "disconnects (resolveAllPromises s) = disconnects s"
  by (simp add: resolveAllPromises_def filter_map comp_def)

lemma dc_subscribe [simp]: "disconnects (subscribe tid options newId s) = disconnects s"
  by (simp add: subscribe_def Subscription_new_def holdPromise_def createClient_def
      client_connect_def Let_def)

lemma dc_timers [simp]:
  "disconnects (startPolling_timeout a s) = disconnects s"
  "disconnects (fallbackPolling_timeout a s) = disconnects s"
  "disconnects (startPolling_settled a r s) = disconnects s"
  "disconnects (fallbackPolling_settled a r s) = disconnects s"
  by (simp_all add: startPolling_timeout_def fallbackPolling_timeout_def
      startPolling_settled_def fallbackPolling_settled_def split: poll_result.splits)

lemma dc_misc [simp]:
  "disconnects (onDisconnect cb s) = disconnects s"
  "disconnects (onBeforeDisconnect hook s) = disconnects s"
  "disconnects (onMessage a f s) = disconnects s"
  "disconnects (connectErrorCallback s) = disconnects s"
  by (simp_all add: onDisconnect_def onBeforeDisconnect_def onMessage_def connectErrorCallback_def)

lemma dc_connectSuccessCallback [simp]:
  "disconnects (connectSuccessCallback cfg s) = disconnects s"
  by (simp add: connectSuccessCallback_def setClientAndSubscribeAll_def Let_def)

lemma checkAndDisconnectClient_cases:
  "checkAndDisconnectClient cfg tid s =
     (if subscriptionsRef s = [] \<and> client_connected s
      then s\<lparr>isClientDisconnectedForced := True, client_active := False,
             log := log s @ teardown_effects cfg tid s\<rparr>
      else s)"
  by (simp add: checkAndDisconnectClient_def teardown_effects_def client_disconnect_def emit_def
      Let_def split: option.splits)

lemma dc_teardown_effects [simp]: "length (filter is_disconnect (teardown_effects cfg tid s)) = 1"
  by (simp add: teardown_effects_def split: option.splits)

lemma unsubscribeAll_step:
  "disconnects (unsubscribeAll cfg s) = (if client_connected s then disconnects s + 1 else disconnects s) \<and>
   subscriptionsRef (unsubscribeAll cfg s) = [] \<and>
   (client_connected s \<longrightarrow> isClientDisconnectedForced (unsubscribeAll cfg s))"
  by (simp add: unsubscribeAll_def Let_def checkAndDisconnectClient_cases
      registry_unsubscribeAll_loop_all)

lemma log_Subscription_unsubscribe:
  "log (Subscription_unsubscribe a s) = log s @ unsubscribe_effects a s"
  by (simp add: Subscription_unsubscribe_def unsubscribe_effects_def onUnsubscribe_def emit_def
      Let_def split: option.splits)

lemmas Subscription_unsubscribe_fields [simp] = ctl_fields [OF ctl_Subscription_unsubscribe]

lemma teardown_effects_upd [simp]:
  "teardown_effects cfg tid (s\<lparr>subscriptionsRef := r\<rparr>) = teardown_effects cfg tid s"
  "teardown_effects cfg tid (Subscription_unsubscribe a s) = teardown_effects cfg tid s"
  by (simp_all add: teardown_effects_def)

lemma unsubscribe_cases:
  "unsubscribe cfg i s =
     (case map_of (subscriptionsRef s) i of
        None \<Rightarrow> s
      | Some a \<Rightarrow>
          (let s1 = (if client_connected s then Subscription_unsubscribe a s else s);
               s2 = s1\<lparr>subscriptionsRef := AList.delete i (subscriptionsRef s1)\<rparr>
           in if subscriptionsRef s2 = [] \<and> client_connected s
              then s2\<lparr>isClientDisconnectedForced := True, client_active := False,
                      log := log s2 @ teardown_effects cfg (Some (sub_topicId (objects s a))) s\<rparr>
              else s2))"
  by (simp add: unsubscribe_def Let_def checkAndDisconnectClient_cases split: option.splits)

lemma unsubscribe_step:
  "disconnects (unsubscribe cfg i s) \<le> disconnects s + 1 \<and>
   (disconnects (unsubscribe cfg i s) = disconnects s + 1 \<longrightarrow>
      subscriptionsRef (unsubscribe cfg i s) = [] \<and> client_connected s \<and>
      isClientDisconnectedForced (unsubscribe cfg i s))"
  by (simp add: unsubscribe_cases Let_def split: option.splits)

lemma dc_connectCloseCallback_disconnected:
  "\<not> client_connected s \<Longrightarrow> disconnects (connectCloseCallback cfg s) = disconnects s"
  using unsubscribeAll_step [of cfg "s\<lparr>isClientConnectionBroken := True, client_reconnectDelay := 0\<rparr>"]
  by (simp add: connectCloseCallback_def startAllPollings_def Let_def)

text \<open>
  C3, as the code has it. Whatever the event, the transport's disconnect is issued at most
  once, and only by a call that leaves the registry empty while the client is connected;
  that call sets the forced-disconnect flag. For \<open>unsubscribe(id)\<close> the log grows by
  exactly: the effects of \<open>unsubscribe()\<close> on the entry if the client is connected; then,
  if the client is connected and the registry is now empty, the teardown, which is the
  call of the before-disconnect hook with the removed entry's topic id and the send of its
  result (when a hook is registered and a send target configured) followed by the
  disconnect. When the client is not connected, or the id is not registered, no disconnect
  is issued, even if the registry has become empty.
\<close>

theorem disconnect_only_on_empty_registry_while_connected:
  "disconnects (step cfg s e) \<le> disconnects s + 1 \<and>
   (disconnects (step cfg s e) = disconnects s + 1 \<longrightarrow>
      subscriptionsRef (step cfg s e) = [] \<and> client_connected s \<and>
      isClientDisconnectedForced (step cfg s e)) \<and>
   log (unsubscribe cfg i s) =
     log s @
     (case map_of (subscriptionsRef s) i of
        None \<Rightarrow> []
      | Some a \<Rightarrow>
          (if client_connected s then unsubscribe_effects a s else []) @
          (if client_connected s \<and> subscriptionsRef (unsubscribe cfg i s) = []
           then teardown_effects cfg (Some (sub_topicId (objects s a))) s else []))"
proof -
  have a: "disconnects (step cfg s e) \<le> disconnects s + 1 \<and>
   (disconnects (step cfg s e) = disconnects s + 1 \<longrightarrow>
      subscriptionsRef (step cfg s e) = [] \<and> client_connected s \<and>
      isClientDisconnectedForced (step cfg s e))"
  proof (cases e)
    case (TimerFires t) then show ?thesis by (cases t) simp_all
  next
    case (PollSettles t r) then show ?thesis by (cases t) simp_all
  next
    case ConnectClose
    then show ?thesis by (simp add: dc_connectCloseCallback_disconnected)
  next
    case (Unsubscribe i)
    then show ?thesis using unsubscribe_step [of cfg i s] by simp
  next
    case UnsubscribeAll
    then show ?thesis using unsubscribeAll_step [of cfg s] by simp
  qed simp_all
  have b: "log (unsubscribe cfg i s) =
     log s @
     (case map_of (subscriptionsRef s) i of
        None \<Rightarrow> []
      | Some a \<Rightarrow>
          (if client_connected s then unsubscribe_effects a s else []) @
          (if client_connected s \<and> subscriptionsRef (unsubscribe cfg i s) = []
           then teardown_effects cfg (Some (sub_topicId (objects s a))) s else []))"
    by (simp add: unsubscribe_cases Let_def log_Subscription_unsubscribe split: option.splits)
  show ?thesis by (rule conjI [OF conjunct1 [OF a] conjI [OF conjunct2 [OF a] b]])
qed

text \<open>With a hook and a send target: the only subscription, bound with handle 0, is
  removed while the client is connected.\<close>

theorem disconnect_only_on_empty_registry_while_connected_witness:
  "disconnects (step (Some \<lparr>reconnectionDelay = None, reconnectionTries = None,
                            sendMessageUrl = Some ''/app/bye''\<rparr>)
     (run (Some \<lparr>reconnectionDelay = None, reconnectionTries = None,
                 sendMessageUrl = Some ''/app/bye''\<rparr>)
        [OnBeforeDisconnect (\<lambda>t. case t of None \<Rightarrow> ''null'' | Some x \<Rightarrow> ''bye-'' @ x),
         Subscribe ''orders'' None ''id1'', ConnectSuccess] init)
     (Unsubscribe ''id1'')) =
   disconnects
     (run (Some \<lparr>reconnectionDelay = None, reconnectionTries = None,
                 sendMessageUrl = Some ''/app/bye''\<rparr>)
        [OnBeforeDisconnect (\<lambda>t. case t of None \<Rightarrow> ''null'' | Some x \<Rightarrow> ''bye-'' @ x),
         Subscribe ''orders'' None ''id1'', ConnectSuccess] init) + 1 \<and>
   isClientDisconnectedForced (step (Some \<lparr>reconnectionDelay = None, reconnectionTries = None,
                            sendMessageUrl = Some ''/app/bye''\<rparr>)
     (run (Some \<lparr>reconnectionDelay = None, reconnectionTries = None,
                 sendMessageUrl = Some ''/app/bye''\<rparr>)
        [OnBeforeDisconnect (\<lambda>t. case t of None \<Rightarrow> ''null'' | Some x \<Rightarrow> ''bye-'' @ x),
         Subscribe ''orders'' None ''id1'', ConnectSuccess] init)
     (Unsubscribe ''id1'')) \<and>
   log (unsubscribe (Some \<lparr>reconnectionDelay = None, reconnectionTries = None,
                            sendMessageUrl = Some ''/app/bye''\<rparr>) ''id1''
     (run (Some \<lparr>reconnectionDelay = None, reconnectionTries = None,
                 sendMessageUrl = Some ''/app/bye''\<rparr>)
        [OnBeforeDisconnect (\<lambda>t. case t of None \<Rightarrow> ''null'' | Some x \<Rightarrow> ''bye-'' @ x),
         Subscribe ''orders'' None ''id1'', ConnectSuccess] init)) =
     [ClientConnect ''orders'', Resolve 0, ClientSubscribe ''orders'' 0, HandleUnsubscribe 0,
      OnUnsubscribe ''id1'', CallBeforeDisconnect (Some ''orders''),
      ClientSend ''/app/bye'' ''bye-orders'', ClientDisconnect noOp]"
proof -
  define cfg where "cfg = Some \<lparr>reconnectionDelay = None, reconnectionTries = None,
                            sendMessageUrl = Some ''/app/bye''\<rparr>"
  define s where "s = run cfg
        [OnBeforeDisconnect (\<lambda>t. case t of None \<Rightarrow> ''null'' | Some x \<Rightarrow> ''bye-'' @ x),
         Subscribe ''orders'' None ''id1'', ConnectSuccess] init"
  have d: "disconnects (step cfg s (Unsubscribe ''id1'')) = disconnects s + 1"
    unfolding s_def cfg_def by (simp add: disconnects_def model_defs)
  have l: "log s = [ClientConnect ''orders'', Resolve 0, ClientSubscribe ''orders'' 0]"
    and r: "map_of (subscriptionsRef s) ''id1'' = Some 0"
    and c: "client_connected s"
    and e: "unsubscribe_effects 0 s = [HandleUnsubscribe 0, OnUnsubscribe ''id1'']"
    and t: "teardown_effects cfg (Some (sub_topicId (objects s 0))) s =
       [CallBeforeDisconnect (Some ''orders''), ClientSend ''/app/bye'' ''bye-orders'',
        ClientDisconnect noOp]"
    unfolding s_def cfg_def
    by (simp_all add: unsubscribe_effects_def teardown_effects_def model_defs)
  note inst = disconnect_only_on_empty_registry_while_connected
    [of cfg s "Unsubscribe ''id1''" "''id1''"]
  from inst d have f: "subscriptionsRef (step cfg s (Unsubscribe ''id1'')) = [] \<and>
      client_connected s \<and> isClientDisconnectedForced (step cfg s (Unsubscribe ''id1''))"
    by (rule mp [OF conjunct1 [OF conjunct2]])
  then have "subscriptionsRef (unsubscribe cfg ''id1'' s) = []" by simp
  with inst l r c e t have "log (unsubscribe cfg ''id1'' s) =
     [ClientConnect ''orders'', Resolve 0, ClientSubscribe ''orders'' 0, HandleUnsubscribe 0,
      OnUnsubscribe ''id1'', CallBeforeDisconnect (Some ''orders''),
      ClientSend ''/app/bye'' ''bye-orders'', ClientDisconnect noOp]"
    by simp
  with d f show ?thesis unfolding s_def cfg_def by simp
qed

text \<open>
  C3 as stated fails: a caller subscribes while there is no connection, which starts the
  connect, and removes the subscription before the connect has succeeded. The registry is
  empty and no disconnect is issued; the connect then succeeds, the client is connected
  with an empty registry, and still no disconnect has been issued.
\<close>

theorem no_disconnect_when_registry_empties_unconnected:
  "subscriptionsRef
     (run None [Subscribe ''orders'' None ''id1'', Unsubscribe ''id1''] init) = [] \<and>
   log (run None [Subscribe ''orders'' None ''id1'', Unsubscribe ''id1''] init) =
     [ClientConnect ''orders''] \<and>
   client_connected
     (run None [Subscribe ''orders'' None ''id1'', Unsubscribe ''id1'', ConnectSuccess]
        init) \<and>
   subscriptionsRef
     (run None [Subscribe ''orders'' None ''id1'', Unsubscribe ''id1'', ConnectSuccess]
        init) = [] \<and>
   disconnects
     (run None [Subscribe ''orders'' None ''id1'', Unsubscribe ''id1'', ConnectSuccess]
        init) = 0"
  by (simp add: disconnects_def model_defs)

end
